theory Spec2Isabelle
  imports Main "HOL-Library.Word"
begin

unbundle bit_operations_syntax

section \<open>The ext2 resizer main program (resize/main.c)\<close>

text \<open>
  The program is a straight-line driver around calls into libext2fs, libc and the resize
  engine. The model keeps the driver as it is written and makes the collaborators
  explicit: every external call takes its answer from a record of functions (the
  \<open>world\<close>), every macro of a header that is not part of the source file comes from a
  record of constants, and everything the program does to the outside (a call, a message,
  an error report) is appended to a chronological list of events. A run yields that list
  and the exit status of the process.
\<close>

subsection \<open>Types of the C program\<close>

text \<open>
  \<open>errcode_t\<close> is a \<open>long\<close> that the program only tests against zero. \<open>blk_t\<close> and
  the superblock fields are \<open>__u32\<close>; \<open>int\<close> flag sets are 32-bit words, used only
  with bitwise operators. File descriptors and the results of \<open>open\<close> and \<open>ioctl\<close> are
  tested with \<open>< 0\<close> and are integers.
\<close>

type_synonym errcode_t = int
type_synonym blk_t = "32 word"
type_synonym c_flags = "32 word"

text \<open>
  The superblock, as far as the program reads it. \<open>struct ext2fs_sb\<close> is declared in a
  header outside the source file; \<open>s_feature_ro_compat\<close> is a field of that struct which
  \<open>main\<close> never reads.
\<close>

record ext2fs_sb =
  s_blocks_count :: "32 word"
  s_mtime :: "32 word"
  s_lastcheck :: "32 word"
  s_feature_compat :: "32 word"
  s_feature_incompat :: "32 word"
  s_feature_ro_compat :: "32 word"

record ext2_filsys =
  fs_super :: ext2fs_sb
  fs_blocksize :: "32 word"

datatype io_manager = Test_io_manager | Unix_io_manager

text \<open>
  Macros of resize2fs.h, ext2fs.h and the platform headers. Their values are not in the
  source file, so the program is modelled for arbitrary values. \<open>BLKFLSBUF_defined\<close>
  says which branch of \<open>#ifdef BLKFLSBUF\<close> was compiled.
\<close>

record headers =
  RESIZE_DEBUG_IO :: c_flags
  RESIZE_PERCENT_COMPLETE :: c_flags
  EXT2_MF_MOUNTED :: c_flags
  EXT2_FLAG_RW :: c_flags
  EXT2_LIB_FEATURE_COMPAT_SUPP :: "32 word"
  EXT2_LIB_FEATURE_RO_COMPAT_SUPP :: "32 word"
  BLKFLSBUF_defined :: bool
  E2_RSZ_EXTEND_ITABLE_PASS :: int
  E2_RSZ_BLOCK_RELOC_PASS :: int
  E2_RSZ_INODE_SCAN_PASS :: int
  E2_RSZ_INODE_REF_UPD_PASS :: int
  E2_RSZ_MOVE_ITABLE_PASS :: int

text \<open>
  The collaborators. Each field is the function the program calls, from its arguments to
  what it returns (a pair where the C function returns a status and stores a result
  through a pointer). \<open>strtoul\<close> returns the \<open>unsigned long\<close> value and the rest of the
  string that \<open>tmp\<close> points to. \<open>resize_fs\<close> is given \<open>True\<close> when the callback
  argument is \<open>resize_progress_func\<close> and \<open>False\<close> when it is the null pointer.
\<close>

record world =
  atoi :: "string \<Rightarrow> c_flags"
  strtoul :: "string \<Rightarrow> nat \<times> string"
  ext2fs_check_if_mounted :: "string \<Rightarrow> errcode_t \<times> c_flags"
  open_rdonly :: "string \<Rightarrow> int"
  ioctl_blkflsbuf :: "int \<Rightarrow> int"
  ext2fs_open :: "string \<Rightarrow> c_flags \<Rightarrow> io_manager \<Rightarrow> errcode_t \<times> ext2_filsys"
  ext2fs_get_device_size :: "string \<Rightarrow> 32 word \<Rightarrow> errcode_t \<times> blk_t"
  resize_fs :: "ext2_filsys \<Rightarrow> blk_t \<Rightarrow> c_flags \<Rightarrow> bool \<Rightarrow> errcode_t"

text \<open>
  What a run does to the outside, in order. \<open>Call_\<close> events are calls into a
  collaborator, \<open>Err_\<close> events are \<open>com_err\<close> reports, \<open>Msg_\<close> events are
  \<open>fprintf\<close> or \<open>printf\<close> messages; the arguments are those of the call in the source.
  \<open>Msg_size_exceeds\<close> carries \<open>max_size\<close> and \<open>new_size\<close> in the order of the
  message; block counts in messages are the 32-bit values handed to \<open>printf\<close>, which
  formats them with \<open>%d\<close>. \<open>Call_resize_fs\<close> stands for the whole engine call, including the calls the
  engine makes back into the progress function.
\<close>

datatype event =
    Msg_banner
  | Msg_usage string
  | Err_bad_size string string
  | Call_check_if_mounted string
  | Err_mount_probe errcode_t string
  | Msg_is_mounted string
  | Call_open_rdonly string
  | Err_open_for_flush string
  | Call_ioctl_blkflsbuf int
  | Err_flush string
  | Call_close_fd int
  | Msg_blkflsbuf_unsupported
  | Set_test_io_backing_manager
  | Call_ext2fs_open string c_flags io_manager
  | Err_open string errcode_t string
  | Msg_no_superblock
  | Err_unsupp_feature string string
  | Call_get_device_size string "32 word"
  | Err_device_size string errcode_t
  | Msg_size_exceeds blk_t blk_t
  | Msg_nothing_to_do blk_t
  | Msg_run_e2fsck string
  | Call_resize_fs ext2_filsys blk_t c_flags bool
  | Err_resize string errcode_t string
  | Call_ext2fs_close ext2_filsys
  | Msg_now_long string blk_t

subsection \<open>Command line (lines 148-194 of main)\<close>

text \<open>
  \<open>getopt\<close> is libc: the command line is given as the program name, the successive
  results of \<open>getopt\<close> before it returns EOF (the option character with \<open>optarg\<close>), and
  the operands \<open>argv[optind..argc-1]\<close> that remain. The program is started with its
  name in \<open>argv[0]\<close>, as every shell does; \<open>program_name\<close> is that name.
\<close>

record cmdline =
  argv0 :: string
  getopt_results :: "(char \<times> string) list"
  operands :: "string list"

record opt_state =
  o_flags :: c_flags
  o_flush :: bool
  o_force :: bool

text \<open>The \<open>while\<close> loop over \<open>getopt\<close>; \<open>None\<close> when \<open>usage\<close> was called.\<close>

fun getopt_loop :: "headers \<Rightarrow> world \<Rightarrow> (char \<times> string) list \<Rightarrow> opt_state \<Rightarrow> opt_state option" where
  "getopt_loop K W [] st = Some st"
| "getopt_loop K W ((c, optarg) # rest) st =
     (if c = CHR ''h'' then None
      else if c = CHR ''f'' then getopt_loop K W rest (st\<lparr>o_force := True\<rparr>)
      else if c = CHR ''F'' then getopt_loop K W rest (st\<lparr>o_flush := True\<rparr>)
      else if c = CHR ''d'' then getopt_loop K W rest (st\<lparr>o_flags := o_flags st OR atoi W optarg\<rparr>)
      else if c = CHR ''p'' then
        getopt_loop K W rest (st\<lparr>o_flags := o_flags st OR RESIZE_PERCENT_COMPLETE K\<rparr>)
      else None)"

text \<open>The local variables of \<open>main\<close> that the command line fixes.\<close>

record request =
  program_name :: string
  device_name :: string
  new_size :: blk_t
  flags :: c_flags
  flush :: bool
  force :: bool

definition mk_request :: "cmdline \<Rightarrow> opt_state \<Rightarrow> string \<Rightarrow> blk_t \<Rightarrow> request" where
  "mk_request cl st dev sz =
     \<lparr>program_name = argv0 cl, device_name = dev, new_size = sz,
      flags = o_flags st, flush = o_flush st, force = o_force st\<rparr>"

text \<open>
  A stage of \<open>main\<close> yields its events and either \<open>Inl\<close> the status of an \<open>exit\<close> or
  \<open>Inr\<close> what the following lines use. The conversion of the \<open>unsigned long\<close> of
  \<open>strtoul\<close> to \<open>blk_t\<close> keeps the low 32 bits.
\<close>

definition parse_cmdline :: "headers \<Rightarrow> world \<Rightarrow> cmdline \<Rightarrow> event list \<times> (int + request)" where
  "parse_cmdline K W cl =
     (case getopt_loop K W (getopt_results cl) \<lparr>o_flags = 0, o_flush = False, o_force = False\<rparr> of
        None \<Rightarrow> ([Msg_banner, Msg_usage (argv0 cl)], Inl 1)
      | Some st \<Rightarrow>
          (case operands cl of
             [] \<Rightarrow> ([Msg_banner, Msg_usage (argv0 cl)], Inl 1)
           | dev # args \<Rightarrow>
               (case args of
                  [] \<Rightarrow> ([Msg_banner], Inr (mk_request cl st dev 0))
                | sz # rest \<Rightarrow>
                    (if snd (strtoul W sz) \<noteq> [] then
                       ([Msg_banner, Err_bad_size (argv0 cl) sz], Inl 1)
                     else if rest \<noteq> [] then ([Msg_banner, Msg_usage (argv0 cl)], Inl 1)
                     else ([Msg_banner], Inr (mk_request cl st dev (of_nat (fst (strtoul W sz)))))))))"

subsection \<open>check_mount (lines 91-109)\<close>

definition check_mount :: "headers \<Rightarrow> world \<Rightarrow> string \<Rightarrow> event list \<times> (int + unit)" where
  "check_mount K W device =
     (let (retval, mount_flags) = ext2fs_check_if_mounted W device in
      if retval \<noteq> 0 then
        ([Call_check_if_mounted device, Err_mount_probe retval device], Inr ())
      else if mount_flags AND EXT2_MF_MOUNTED K = 0 then
        ([Call_check_if_mounted device], Inr ())
      else ([Call_check_if_mounted device, Msg_is_mounted device], Inl 1))"

subsection \<open>The flush (lines 198-217 of main)\<close>

definition flush_stage :: "headers \<Rightarrow> world \<Rightarrow> request \<Rightarrow> event list \<times> (int + unit)" where
  "flush_stage K W rq =
     (if flush rq then
        (if BLKFLSBUF_defined K then
           (let fd = open_rdonly W (device_name rq) in
            if fd < 0 then
              ([Call_open_rdonly (device_name rq), Err_open_for_flush (device_name rq)], Inl 1)
            else if ioctl_blkflsbuf W fd < 0 then
              ([Call_open_rdonly (device_name rq), Call_ioctl_blkflsbuf fd,
                Err_flush (device_name rq)], Inl 1)
            else
              ([Call_open_rdonly (device_name rq), Call_ioctl_blkflsbuf fd, Call_close_fd fd],
               Inr ()))
         else ([Msg_blkflsbuf_unsupported], Inl 1))
      else ([], Inr ()))"

subsection \<open>Opening the filesystem, feature check, device size (lines 219-256 of main)\<close>

definition select_io :: "headers \<Rightarrow> request \<Rightarrow> event list \<times> io_manager" where
  "select_io K rq =
     (if flags rq AND RESIZE_DEBUG_IO K \<noteq> 0 then ([Set_test_io_backing_manager], Test_io_manager)
      else ([], Unix_io_manager))"

definition unsupp_feature :: "headers \<Rightarrow> ext2fs_sb \<Rightarrow> bool" where
  "unsupp_feature K s \<longleftrightarrow>
     s_feature_compat s AND NOT (EXT2_LIB_FEATURE_COMPAT_SUPP K) \<noteq> 0 \<or>
     s_feature_incompat s AND NOT (EXT2_LIB_FEATURE_RO_COMPAT_SUPP K) \<noteq> 0"

definition open_stage ::
  "headers \<Rightarrow> world \<Rightarrow> request \<Rightarrow> event list \<times> (int + ext2_filsys \<times> blk_t)" where
  "open_stage K W rq =
     (let (ev_io, io_ptr) = select_io K rq;
          (retval, fs) = ext2fs_open W (device_name rq) (EXT2_FLAG_RW K) io_ptr;
          ev_open = ev_io @ [Call_ext2fs_open (device_name rq) (EXT2_FLAG_RW K) io_ptr]
      in
      if retval \<noteq> 0 then
        (ev_open @ [Err_open (program_name rq) retval (device_name rq), Msg_no_superblock], Inl 1)
      else if unsupp_feature K (fs_super fs) then
        (ev_open @ [Err_unsupp_feature (program_name rq) (device_name rq)], Inl 1)
      else
        (let (retval2, max_size) = ext2fs_get_device_size W (device_name rq) (fs_blocksize fs);
             ev_size = ev_open @ [Call_get_device_size (device_name rq) (fs_blocksize fs)]
         in
         if retval2 \<noteq> 0 then (ev_size @ [Err_device_size (program_name rq) retval2], Inl 1)
         else (ev_size, Inr (fs, max_size))))"

subsection \<open>Size resolution, remaining checks and the engine (lines 257-286 of main)\<close>

definition resolve_size :: "blk_t \<Rightarrow> blk_t \<Rightarrow> blk_t" where
  "resolve_size requested max_size = (if requested = 0 then max_size else requested)"

definition resize_stage ::
  "headers \<Rightarrow> world \<Rightarrow> request \<Rightarrow> ext2_filsys \<Rightarrow> blk_t \<Rightarrow> event list \<times> int" where
  "resize_stage K W rq fs max_size =
     (let nsz = resolve_size (new_size rq) max_size in
      if \<not> force rq \<and> nsz > max_size then ([Msg_size_exceeds max_size nsz], 1)
      else if nsz = s_blocks_count (fs_super fs) then ([Msg_nothing_to_do nsz], 0)
      else if \<not> force rq \<and> s_lastcheck (fs_super fs) < s_mtime (fs_super fs) then
        ([Msg_run_e2fsck (device_name rq)], 1)
      else
        (let cb = (flags rq AND RESIZE_PERCENT_COMPLETE K \<noteq> 0);
             retval = resize_fs W fs nsz (flags rq) cb
         in
         if retval \<noteq> 0 then
           ([Call_resize_fs fs nsz (flags rq) cb,
             Err_resize (program_name rq) retval (device_name rq),
             Call_ext2fs_close fs,
             Msg_now_long (device_name rq) nsz], 0)
         else
           ([Call_resize_fs fs nsz (flags rq) cb, Msg_now_long (device_name rq) nsz], 0)))"

subsection \<open>main\<close>

text \<open>
  \<open>main_prefix\<close> is \<open>main\<close> up to line 256: it ends with an exit status, or with the
  request, the open filesystem and the device size that line 257 starts from.
\<close>

definition main_prefix ::
  "headers \<Rightarrow> world \<Rightarrow> cmdline \<Rightarrow> event list \<times> (int + request \<times> ext2_filsys \<times> blk_t)" where
  "main_prefix K W cl =
     (case parse_cmdline K W cl of
        (t1, Inl ec) \<Rightarrow> (t1, Inl ec)
      | (t1, Inr rq) \<Rightarrow>
          (case check_mount K W (device_name rq) of
             (t2, Inl ec) \<Rightarrow> (t1 @ t2, Inl ec)
           | (t2, Inr _) \<Rightarrow>
               (case flush_stage K W rq of
                  (t3, Inl ec) \<Rightarrow> (t1 @ t2 @ t3, Inl ec)
                | (t3, Inr _) \<Rightarrow>
                    (case open_stage K W rq of
                       (t4, Inl ec) \<Rightarrow> (t1 @ t2 @ t3 @ t4, Inl ec)
                     | (t4, Inr (fs, max_size)) \<Rightarrow>
                         (t1 @ t2 @ t3 @ t4, Inr (rq, fs, max_size))))))"

definition main :: "headers \<Rightarrow> world \<Rightarrow> cmdline \<Rightarrow> event list \<times> int" where
  "main K W cl =
     (case main_prefix K W cl of
        (t, Inl ec) \<Rightarrow> (t, ec)
      | (t, Inr (rq, fs, max_size)) \<Rightarrow>
          (case resize_stage K W rq fs max_size of (t5, ec) \<Rightarrow> (t @ t5, ec)))"

text \<open>The lines of \<open>main\<close> that follow the return of \<open>check_mount\<close> (198-286).\<close>

definition after_mount :: "headers \<Rightarrow> world \<Rightarrow> request \<Rightarrow> event list \<times> int" where
  "after_mount K W rq =
     (case flush_stage K W rq of
        (t3, Inl ec) \<Rightarrow> (t3, ec)
      | (t3, Inr _) \<Rightarrow>
          (case open_stage K W rq of
             (t4, Inl ec) \<Rightarrow> (t3 @ t4, ec)
           | (t4, Inr (fs, max_size)) \<Rightarrow>
               (case resize_stage K W rq fs max_size of (t5, ec) \<Rightarrow> (t3 @ t4 @ t5, ec))))"

subsection \<open>resize_progress_func (lines 39-89)\<close>

text \<open>
  The progress meter is a pointer that the function stores in \<open>rfs->prog_data\<close>; it is
  an address here, with 0 the null pointer. The calls into the progress-meter library
  and the \<open>printf\<close> are recorded in order. \<open>unsigned long\<close> counts are only compared,
  so they are natural numbers.
\<close>

datatype prog_call =
    Progress_close nat
  | Print_begin_pass int nat
  | Progress_init string nat nat nat nat
  | Progress_update nat nat

record ext2_resize =
  prog_data :: nat

text \<open>
  \<open>ext2fs_progress_init\<close> is a collaborator: from the calls made so far and its
  arguments (label, 30, 40, max, 0) it returns its status and the pointer it stored.
\<close>

type_synonym progress_init_fn =
  "prog_call list \<Rightarrow> string \<Rightarrow> nat \<Rightarrow> nat \<Rightarrow> nat \<Rightarrow> nat \<Rightarrow> errcode_t \<times> nat"

text \<open>The \<open>switch\<close> on the pass; its case labels are distinct constants in C.\<close>

definition pass_label :: "headers \<Rightarrow> int \<Rightarrow> string" where
  "pass_label K pass =
     (if pass = E2_RSZ_EXTEND_ITABLE_PASS K then ''Extending the inode table''
      else if pass = E2_RSZ_BLOCK_RELOC_PASS K then ''Relocating blocks''
      else if pass = E2_RSZ_INODE_SCAN_PASS K then ''Scanning inode table''
      else if pass = E2_RSZ_INODE_REF_UPD_PASS K then ''Updating inode references''
      else if pass = E2_RSZ_MOVE_ITABLE_PASS K then ''Moving inode table''
      else ''Unknown pass?!?'')"

text \<open>The body of \<open>if (cur == 0)\<close>; it yields the new value of the local \<open>progress\<close> too.\<close>

definition begin_pass ::
  "headers \<Rightarrow> progress_init_fn \<Rightarrow> ext2_resize \<times> prog_call list \<Rightarrow> int \<Rightarrow> nat \<Rightarrow>
   ext2_resize \<times> prog_call list \<times> nat" where
  "begin_pass K init st pass mx =
     (let rfs = fst st; cs = snd st;
          cs1 = (if prog_data rfs \<noteq> 0 then cs @ [Progress_close (prog_data rfs)] else cs);
          label = pass_label K pass;
          cs2 = cs1 @ [Print_begin_pass pass mx];
          (retval, p) = init cs2 label 30 40 mx 0;
          cs3 = cs2 @ [Progress_init label 30 40 mx 0];
          progress = (if retval \<noteq> 0 then 0 else p)
      in (rfs\<lparr>prog_data := progress\<rparr>, cs3, progress))"

definition resize_progress_func ::
  "headers \<Rightarrow> progress_init_fn \<Rightarrow> ext2_resize \<times> prog_call list \<Rightarrow> int \<Rightarrow> nat \<Rightarrow> nat \<Rightarrow>
   (ext2_resize \<times> prog_call list) \<times> errcode_t" where
  "resize_progress_func K init st pass cur mx =
     (if mx = 0 then (st, 0)
      else
        (let (rfs1, cs1, progress) =
               (if cur = 0 then begin_pass K init st pass mx
                else (fst st, snd st, prog_data (fst st)));
             cs2 = (if progress \<noteq> 0 then cs1 @ [Progress_update progress cur] else cs1)
         in
         if cur \<ge> mx then
           ((rfs1\<lparr>prog_data := 0\<rparr>,
             (if progress \<noteq> 0 then cs2 @ [Progress_close progress] else cs2)), 0)
         else ((rfs1, cs2), 0)))"

text \<open>The engine calling the function once for each event (pass, cur, max) of a list.\<close>

fun progress_events ::
  "headers \<Rightarrow> progress_init_fn \<Rightarrow> ext2_resize \<times> prog_call list \<Rightarrow> (int \<times> nat \<times> nat) list \<Rightarrow>
   ext2_resize \<times> prog_call list" where
  "progress_events K init st [] = st"
| "progress_events K init st ((pass, cur, mx) # es) =
     progress_events K init (fst (resize_progress_func K init st pass cur mx)) es"

subsection \<open>Observations on a run\<close>

text \<open>The target sizes of the engine calls of a run, in order.\<close>

fun engine_sizes :: "event list \<Rightarrow> blk_t list" where
  "engine_sizes [] = []"
| "engine_sizes (Call_resize_fs fs n fl cb # es) = n # engine_sizes es"
| "engine_sizes (_ # es) = engine_sizes es"

fun is_flush :: "event \<Rightarrow> bool" where
  "is_flush (Call_ioctl_blkflsbuf fd) = True"
| "is_flush _ = False"

fun is_fs_open :: "event \<Rightarrow> bool" where
  "is_fs_open (Call_ext2fs_open d fl io) = True"
| "is_fs_open _ = False"

fun is_size_probe :: "event \<Rightarrow> bool" where
  "is_size_probe (Call_get_device_size d bs) = True"
| "is_size_probe _ = False"

fun is_engine :: "event \<Rightarrow> bool" where
  "is_engine (Call_resize_fs fs n fl cb) = True"
| "is_engine _ = False"

text \<open>The three reports of a flush that failed (lines 203, 208 and 214).\<close>

fun is_flush_failure :: "event \<Rightarrow> bool" where
  "is_flush_failure (Err_open_for_flush d) = True"
| "is_flush_failure (Err_flush d) = True"
| "is_flush_failure Msg_blkflsbuf_unsupported = True"
| "is_flush_failure _ = False"

text \<open>The events of a run that come before its first event with property \<open>P\<close>.\<close>

definition events_before :: "(event \<Rightarrow> bool) \<Rightarrow> event list \<Rightarrow> event list" where
  "events_before P tr = takeWhile (\<lambda>e. \<not> P e) tr"

fun is_init :: "prog_call \<Rightarrow> bool" where
  "is_init (Progress_init l w p m c) = True"
| "is_init _ = False"

fun is_update :: "prog_call \<Rightarrow> bool" where
  "is_update (Progress_update p c) = True"
| "is_update _ = False"

fun is_close :: "prog_call \<Rightarrow> bool" where
  "is_close (Progress_close p) = True"
| "is_close _ = False"

text \<open>An event of the engine that neither begins nor completes a pass.\<close>

definition intermediate :: "int \<times> nat \<times> nat \<Rightarrow> bool" where
  "intermediate ev = (case ev of (pass, cur, mx) \<Rightarrow> cur \<noteq> 0 \<and> cur < mx)"

text \<open>
  The bits that the options of a command line contribute to \<open>flags\<close>: the value of each
  \<open>-d\<close> and the percent-complete flag for each \<open>-p\<close>.
\<close>

fun option_mask :: "headers \<Rightarrow> world \<Rightarrow> (char \<times> string) list \<Rightarrow> c_flags" where
  "option_mask K W [] = 0"
| "option_mask K W ((c, optarg) # rest) =
     (if c = CHR ''d'' then atoi W optarg
      else if c = CHR ''p'' then RESIZE_PERCENT_COMPLETE K
      else 0) OR option_mask K W rest"

subsection \<open>Example collaborators\<close>

text \<open>
  Concrete headers and collaborators for the closed instances below: the macro values of
  the e2fsprogs headers of the time, a decimal reader for \<open>atoi\<close> and \<open>strtoul\<close>, a
  device \<open>/dev/hda1\<close> of 1000 blocks that is not mounted, and on it a checked
  filesystem of 500 blocks with no feature bits, which the engine resizes without error.
\<close>

definition K0 :: headers where
  "K0 = \<lparr>RESIZE_DEBUG_IO = 0x0001, RESIZE_PERCENT_COMPLETE = 0x0100, EXT2_MF_MOUNTED = 1,
          EXT2_FLAG_RW = 1, EXT2_LIB_FEATURE_COMPAT_SUPP = 0,
          EXT2_LIB_FEATURE_RO_COMPAT_SUPP = 1, BLKFLSBUF_defined = True,
          E2_RSZ_EXTEND_ITABLE_PASS = 1, E2_RSZ_BLOCK_RELOC_PASS = 2,
          E2_RSZ_INODE_SCAN_PASS = 3, E2_RSZ_INODE_REF_UPD_PASS = 4,
          E2_RSZ_MOVE_ITABLE_PASS = 5\<rparr>"

fun decimal :: "nat \<Rightarrow> string \<Rightarrow> nat \<times> string" where
  "decimal acc [] = (acc, [])"
| "decimal acc (c # cs) =
     (if (48::nat) \<le> of_char c \<and> of_char c \<le> (57::nat)
      then decimal (10 * acc + (of_char c - 48)) cs
      else (acc, c # cs))"

definition sb0 :: ext2fs_sb where
  "sb0 = \<lparr>s_blocks_count = 500, s_mtime = 100, s_lastcheck = 200, s_feature_compat = 0,
           s_feature_incompat = 0, s_feature_ro_compat = 0\<rparr>"

definition fs0 :: ext2_filsys where
  "fs0 = \<lparr>fs_super = sb0, fs_blocksize = 1024\<rparr>"

definition W0 :: world where
  "W0 = \<lparr>atoi = (\<lambda>s. of_nat (fst (decimal 0 s))), strtoul = decimal 0,
          ext2fs_check_if_mounted = (\<lambda>_. (0, 0)), open_rdonly = (\<lambda>_. 3),
          ioctl_blkflsbuf = (\<lambda>_. 0), ext2fs_open = (\<lambda>_ _ _. (0, fs0)),
          ext2fs_get_device_size = (\<lambda>_ _. (0, 1000)), resize_fs = (\<lambda>_ _ _ _. 0)\<rparr>"

text \<open>The command line \<open>resize2fs [options] /dev/hda1 [size]\<close>.\<close>

definition cmd :: "(char \<times> string) list \<Rightarrow> string list \<Rightarrow> cmdline" where
  "cmd opts sizes =
     \<lparr>argv0 = ''resize2fs'', getopt_results = opts, operands = ''/dev/hda1'' # sizes\<rparr>"

text \<open>The same filesystem with another block count, and the request of a command line.\<close>

definition fs_sized :: "32 word \<Rightarrow> ext2_filsys" where
  "fs_sized n = fs0\<lparr>fs_super := sb0\<lparr>s_blocks_count := n\<rparr>\<rparr>"

definition rq0 :: "c_flags \<Rightarrow> bool \<Rightarrow> bool \<Rightarrow> blk_t \<Rightarrow> request" where
  "rq0 fl flsh frc sz =
     \<lparr>program_name = ''resize2fs'', device_name = ''/dev/hda1'', new_size = sz,
      flags = fl, flush = flsh, force = frc\<rparr>"

lemmas stage_defs =
  main_def main_prefix_def parse_cmdline_def mk_request_def check_mount_def flush_stage_def
  select_io_def unsupp_feature_def open_stage_def resolve_size_def resize_stage_def

lemmas example_defs = K0_def W0_def fs0_def sb0_def cmd_def fs_sized_def rq0_def

section \<open>The shape of a run\<close>

subsection \<open>What a completed stage has done\<close>

lemma engine_sizes_append: "engine_sizes (xs @ ys) = engine_sizes xs @ engine_sizes ys"
  by (induction xs rule: engine_sizes.induct) simp_all

lemma parse_cmdline_Inr: "parse_cmdline K W cl = (t1, Inr rq) \<Longrightarrow> t1 = [Msg_banner]"
  by (auto simp: parse_cmdline_def split: option.splits list.splits if_splits)

lemma check_mount_Inr:
  assumes "check_mount K W dev = (t2, Inr u)"
  shows "(t2 = [Call_check_if_mounted dev] \<and> fst (ext2fs_check_if_mounted W dev) = 0 \<and>
          snd (ext2fs_check_if_mounted W dev) AND EXT2_MF_MOUNTED K = 0) \<or>
         (t2 = [Call_check_if_mounted dev, Err_mount_probe (fst (ext2fs_check_if_mounted W dev)) dev] \<and>
          fst (ext2fs_check_if_mounted W dev) \<noteq> 0)"
  using assms by (cases "ext2fs_check_if_mounted W dev") (auto simp: check_mount_def split: if_splits)

lemma flush_stage_Inr:
  assumes "flush_stage K W rq = (t3, Inr u)"
  shows "(\<not> flush rq \<and> t3 = []) \<or>
         (flush rq \<and> t3 = [Call_open_rdonly (device_name rq),
            Call_ioctl_blkflsbuf (open_rdonly W (device_name rq)),
            Call_close_fd (open_rdonly W (device_name rq))])"
  using assms by (auto simp: flush_stage_def Let_def split: if_splits)

lemma open_stage_Inr:
  assumes "open_stage K W rq = (t4, Inr (fs, mx))"
  shows "\<not> unsupp_feature K (fs_super fs) \<and>
         ext2fs_open W (device_name rq) (EXT2_FLAG_RW K) (snd (select_io K rq)) = (0, fs) \<and>
         ext2fs_get_device_size W (device_name rq) (fs_blocksize fs) = (0, mx) \<and>
         t4 = fst (select_io K rq) @
              [Call_ext2fs_open (device_name rq) (EXT2_FLAG_RW K) (snd (select_io K rq)),
               Call_get_device_size (device_name rq) (fs_blocksize fs)]"
  using assms
  by (cases "select_io K rq";
      cases "ext2fs_open W (device_name rq) (EXT2_FLAG_RW K) (snd (select_io K rq))";
      cases "ext2fs_get_device_size W (device_name rq) (fs_blocksize (snd (ext2fs_open W (device_name rq) (EXT2_FLAG_RW K) (snd (select_io K rq)))))")
     (auto simp: open_stage_def Let_def split: if_splits)

lemma main_prefix_Inr:
  assumes "main_prefix K W cl = (t, Inr (rq, fs, mx))"
  shows "\<exists>t2 t3 t4. parse_cmdline K W cl = ([Msg_banner], Inr rq) \<and>
           check_mount K W (device_name rq) = (t2, Inr ()) \<and>
           flush_stage K W rq = (t3, Inr ()) \<and>
           open_stage K W rq = (t4, Inr (fs, mx)) \<and>
           t = [Msg_banner] @ t2 @ t3 @ t4"
  using assms
  by (auto simp: main_prefix_def split: prod.splits sum.splits dest: parse_cmdline_Inr)

lemma main_of_prefix:
  "main_prefix K W cl = (t, Inr (rq, fs, mx)) \<Longrightarrow>
   main K W cl = (t @ fst (resize_stage K W rq fs mx), snd (resize_stage K W rq fs mx))"
  by (simp add: main_def split: prod.splits)

lemma select_io_no_engine: "engine_sizes (fst (select_io K rq)) = []"
  by (simp add: select_io_def)

lemma main_prefix_no_engine:
  assumes "main_prefix K W cl = (t, Inr (rq, fs, mx))"
  shows "engine_sizes t = []"
proof -
  from main_prefix_Inr [OF assms] obtain t2 t3 t4 where
    m: "check_mount K W (device_name rq) = (t2, Inr ())" and
    f: "flush_stage K W rq = (t3, Inr ())" and
    p: "open_stage K W rq = (t4, Inr (fs, mx))" and
    t: "t = [Msg_banner] @ t2 @ t3 @ t4"
    by blast
  have "engine_sizes t2 = []" using check_mount_Inr [OF m] by auto
  moreover have "engine_sizes t3 = []" using flush_stage_Inr [OF f] by auto
  moreover have "engine_sizes t4 = []"
    using open_stage_Inr [OF p] by (simp add: engine_sizes_append select_io_no_engine)
  ultimately show ?thesis by (simp add: t engine_sizes_append)
qed

subsection \<open>The mount probe is consulted by check_mount only\<close>

lemma getopt_loop_mounted_upd:
  "getopt_loop K (W\<lparr>ext2fs_check_if_mounted := f\<rparr>) opts st = getopt_loop K W opts st"
  by (induction opts arbitrary: st) auto

lemma parse_cmdline_mounted_upd:
  "parse_cmdline K (W\<lparr>ext2fs_check_if_mounted := f\<rparr>) cl = parse_cmdline K W cl"
  by (simp add: parse_cmdline_def getopt_loop_mounted_upd split: option.splits list.splits)

lemma flush_stage_mounted_upd:
  "flush_stage K (W\<lparr>ext2fs_check_if_mounted := f\<rparr>) rq = flush_stage K W rq"
  by (simp add: flush_stage_def Let_def)

lemma open_stage_mounted_upd:
  "open_stage K (W\<lparr>ext2fs_check_if_mounted := f\<rparr>) rq = open_stage K W rq"
  by (simp add: open_stage_def Let_def split: prod.splits)

lemma resize_stage_mounted_upd:
  "resize_stage K (W\<lparr>ext2fs_check_if_mounted := f\<rparr>) rq fs mx = resize_stage K W rq fs mx"
  by (simp add: resize_stage_def Let_def)

lemma main_after_mount:
  "main K W cl =
     (case parse_cmdline K W cl of
        (t1, Inl ec) \<Rightarrow> (t1, ec)
      | (t1, Inr rq) \<Rightarrow>
          (case check_mount K W (device_name rq) of
             (t2, Inl ec) \<Rightarrow> (t1 @ t2, ec)
           | (t2, Inr _) \<Rightarrow> (t1 @ t2 @ fst (after_mount K W rq), snd (after_mount K W rq))))"
  by (simp add: main_def main_prefix_def after_mount_def split: prod.splits sum.splits)

lemma after_mount_mounted_upd:
  "after_mount K (W\<lparr>ext2fs_check_if_mounted := f\<rparr>) rq = after_mount K W rq"
  by (simp add: after_mount_def flush_stage_mounted_upd open_stage_mounted_upd resize_stage_mounted_upd
      split: prod.splits sum.splits)

subsection \<open>How a stage fails\<close>

lemma parse_cmdline_Inl:
  assumes "parse_cmdline K W cl = (t1, Inl ec)"
  shows "ec = 1 \<and> (t1 = [Msg_banner, Msg_usage (argv0 cl)] \<or>
                    (\<exists>sz. t1 = [Msg_banner, Err_bad_size (argv0 cl) sz]))"
  using assms by (auto simp: parse_cmdline_def split: option.splits list.splits if_splits)

lemma check_mount_Inl:
  assumes "check_mount K W dev = (t2, Inl ec)"
  shows "ec = 1 \<and> t2 = [Call_check_if_mounted dev, Msg_is_mounted dev] \<and>
         fst (ext2fs_check_if_mounted W dev) = 0 \<and>
         snd (ext2fs_check_if_mounted W dev) AND EXT2_MF_MOUNTED K \<noteq> 0"
  using assms by (cases "ext2fs_check_if_mounted W dev") (auto simp: check_mount_def split: if_splits)

lemma flush_stage_Inl:
  assumes "flush_stage K W rq = (t3, Inl ec)"
  shows "ec = 1 \<and> flush rq \<and>
         (t3 = [Msg_blkflsbuf_unsupported] \<or>
          t3 = [Call_open_rdonly (device_name rq), Err_open_for_flush (device_name rq)] \<or>
          t3 = [Call_open_rdonly (device_name rq),
                Call_ioctl_blkflsbuf (open_rdonly W (device_name rq)),
                Err_flush (device_name rq)] \<and>
          ioctl_blkflsbuf W (open_rdonly W (device_name rq)) < 0)"
  using assms by (auto simp: flush_stage_def Let_def split: if_splits)

lemma open_stage_Inl:
  assumes "open_stage K W rq = (t4, Inl ec)"
  shows "ec = 1 \<and>
         (\<exists>tl. t4 = fst (select_io K rq) @
                  Call_ext2fs_open (device_name rq) (EXT2_FLAG_RW K) (snd (select_io K rq)) # tl \<and>
               ((\<exists>r. tl = [Err_open (program_name rq) r (device_name rq), Msg_no_superblock]) \<or>
                tl = [Err_unsupp_feature (program_name rq) (device_name rq)] \<or>
                (\<exists>bs r. tl = [Call_get_device_size (device_name rq) bs,
                               Err_device_size (program_name rq) r])))"
  using assms
  by (cases "select_io K rq";
      cases "ext2fs_open W (device_name rq) (EXT2_FLAG_RW K) (snd (select_io K rq))";
      cases "ext2fs_get_device_size W (device_name rq) (fs_blocksize (snd (ext2fs_open W (device_name rq) (EXT2_FLAG_RW K) (snd (select_io K rq)))))")
     (auto simp: open_stage_def Let_def split: if_splits)

lemma select_io_cases:
  "fst (select_io K rq) = [] \<or> fst (select_io K rq) = [Set_test_io_backing_manager]"
  by (simp add: select_io_def)

subsection \<open>The five ways in which a run ends\<close>

lemma main_cases:
  obtains
    (c_parse) t1 where "parse_cmdline K W cl = (t1, Inl 1)" and "main K W cl = (t1, 1)"
  | (c_mounted) rq t2 where "parse_cmdline K W cl = ([Msg_banner], Inr rq)"
      and "check_mount K W (device_name rq) = (t2, Inl 1)"
      and "main K W cl = (Msg_banner # t2, 1)"
  | (c_flush) rq t2 t3 where "parse_cmdline K W cl = ([Msg_banner], Inr rq)"
      and "check_mount K W (device_name rq) = (t2, Inr ())"
      and "flush_stage K W rq = (t3, Inl 1)"
      and "main K W cl = (Msg_banner # t2 @ t3, 1)"
  | (c_open) rq t2 t3 t4 where "parse_cmdline K W cl = ([Msg_banner], Inr rq)"
      and "check_mount K W (device_name rq) = (t2, Inr ())"
      and "flush_stage K W rq = (t3, Inr ())"
      and "open_stage K W rq = (t4, Inl 1)"
      and "main K W cl = (Msg_banner # t2 @ t3 @ t4, 1)"
  | (c_resize) rq t2 t3 t4 fs mx where "parse_cmdline K W cl = ([Msg_banner], Inr rq)"
      and "check_mount K W (device_name rq) = (t2, Inr ())"
      and "flush_stage K W rq = (t3, Inr ())"
      and "open_stage K W rq = (t4, Inr (fs, mx))"
      and "main_prefix K W cl = (Msg_banner # t2 @ t3 @ t4, Inr (rq, fs, mx))"
      and "main K W cl = (Msg_banner # t2 @ t3 @ t4 @ fst (resize_stage K W rq fs mx),
                           snd (resize_stage K W rq fs mx))"
proof (cases "parse_cmdline K W cl")
  case (Pair t1 r1)
  show ?thesis
  proof (cases r1)
    case (Inl ec)
    with Pair parse_cmdline_Inl [of K W cl t1 ec] have "ec = 1" by simp
    with Pair Inl show ?thesis
      by (intro c_parse [of t1]) (simp_all add: main_def main_prefix_def)
  next
    case (Inr rq)
    with Pair parse_cmdline_Inr [of K W cl t1 rq] have p: "parse_cmdline K W cl = ([Msg_banner], Inr rq)"
      by simp
    show ?thesis
    proof (cases "check_mount K W (device_name rq)")
      case m: (Pair t2 r2)
      show ?thesis
      proof (cases r2)
        case (Inl ec)
        with m check_mount_Inl [of K W "device_name rq" t2 ec] have "ec = 1" by simp
        with p m Inl show ?thesis
          by (intro c_mounted [of rq t2]) (simp_all add: main_def main_prefix_def)
      next
        case mr: (Inr u)
        show ?thesis
        proof (cases "flush_stage K W rq")
          case f: (Pair t3 r3)
          show ?thesis
          proof (cases r3)
            case (Inl ec)
            with f flush_stage_Inl [of K W rq t3 ec] have "ec = 1" by simp
            with p m mr f Inl show ?thesis
              by (intro c_flush [of rq t2 t3]) (simp_all add: main_def main_prefix_def)
          next
            case fr: (Inr u3)
            show ?thesis
            proof (cases "open_stage K W rq")
              case o: (Pair t4 r4)
              show ?thesis
              proof (cases r4)
                case (Inl ec)
                with o open_stage_Inl [of K W rq t4 ec] have "ec = 1" by simp
                with p m mr f fr o Inl show ?thesis
                  by (intro c_open [of rq t2 t3 t4]) (simp_all add: main_def main_prefix_def)
              next
                case (Inr y)
                obtain fs mx where y: "y = (fs, mx)" by (cases y)
                with p m mr f fr o Inr show ?thesis
                  by (intro c_resize [of rq t2 t3 t4 fs mx])
                     (simp_all add: main_def main_prefix_def split: prod.splits)
              qed
            qed
          qed
        qed
      qed
    qed
  qed
qed

subsection \<open>The kinds of events of each stage\<close>

lemma parse_cmdline_kinds:
  assumes "parse_cmdline K W cl = (t1, r)" and "e \<in> set t1"
  shows "\<not> is_flush e \<and> \<not> is_flush_failure e \<and> \<not> is_fs_open e \<and> \<not> is_size_probe e \<and> \<not> is_engine e"
  using assms parse_cmdline_Inl [of K W cl t1] parse_cmdline_Inr [of K W cl t1]
  by (cases r) auto

lemma check_mount_kinds:
  assumes "check_mount K W dev = (t2, r)" and "e \<in> set t2"
  shows "\<not> is_flush e \<and> \<not> is_flush_failure e \<and> \<not> is_fs_open e \<and> \<not> is_size_probe e \<and> \<not> is_engine e"
  using assms check_mount_Inl [of K W dev t2] check_mount_Inr [of K W dev t2]
  by (cases r) auto

lemma check_mount_hd:
  assumes "check_mount K W dev = (t2, r)"
  shows "\<exists>tl. t2 = Call_check_if_mounted dev # tl"
  using assms check_mount_Inl [of K W dev t2] check_mount_Inr [of K W dev t2]
  by (cases r) auto

lemma flush_stage_kinds:
  assumes "flush_stage K W rq = (t3, r)" and "e \<in> set t3"
  shows "\<not> is_fs_open e \<and> \<not> is_size_probe e \<and> \<not> is_engine e"
  using assms flush_stage_Inl [of K W rq t3] flush_stage_Inr [of K W rq t3]
  by (cases r) auto

lemma flush_stage_Inr_kinds:
  assumes "flush_stage K W rq = (t3, Inr u)" and "e \<in> set t3"
  shows "\<not> is_flush_failure e"
  using assms flush_stage_Inr [of K W rq t3] by auto

lemma open_stage_kinds:
  assumes "open_stage K W rq = (t4, r)" and "e \<in> set t4"
  shows "\<not> is_flush e \<and> \<not> is_flush_failure e \<and> \<not> is_engine e"
  using assms select_io_cases [of K rq] open_stage_Inl [of K W rq t4] open_stage_Inr [of K W rq t4]
  by (cases r) auto

lemma resize_stage_kinds:
  assumes "e \<in> set (fst (resize_stage K W rq fs mx))"
  shows "\<not> is_flush e \<and> \<not> is_flush_failure e \<and> \<not> is_fs_open e \<and> \<not> is_size_probe e"
  using assms by (auto simp: resize_stage_def Let_def split: if_splits)

lemma takeWhile_skip:
  "(\<And>e. e \<in> set xs \<Longrightarrow> \<not> P e) \<Longrightarrow> takeWhile (\<lambda>e. \<not> P e) (xs @ ys) = xs @ takeWhile (\<lambda>e. \<not> P e) ys"
  by (simp add: takeWhile_append2)

lemma parse_cmdline_no_noop:
  "parse_cmdline K W cl = (t1, r) \<Longrightarrow> Msg_nothing_to_do n \<notin> set t1"
  using parse_cmdline_Inl [of K W cl t1] parse_cmdline_Inr [of K W cl t1] by (cases r) auto

lemma check_mount_no_noop:
  "check_mount K W dev = (t2, r) \<Longrightarrow> Msg_nothing_to_do n \<notin> set t2"
  using check_mount_Inl [of K W dev t2] check_mount_Inr [of K W dev t2] by (cases r) auto

lemma flush_stage_no_noop:
  "flush_stage K W rq = (t3, r) \<Longrightarrow> Msg_nothing_to_do n \<notin> set t3"
  using flush_stage_Inl [of K W rq t3] flush_stage_Inr [of K W rq t3] by (cases r) auto

lemma open_stage_no_noop:
  "open_stage K W rq = (t4, r) \<Longrightarrow> Msg_nothing_to_do n \<notin> set t4"
  using select_io_cases [of K rq] open_stage_Inl [of K W rq t4] open_stage_Inr [of K W rq t4]
  by (cases r) auto

section \<open>Engine failure\<close>

text \<open>
  C1. When the engine returns a failure, the program should close the filesystem handle,
  report the engine error with the device, and end with exit status 1 without the message
  that reports the new size. The program does report the error and close the handle, but
  the \<open>if (retval)\<close> block of lines 279-283 has no \<open>exit(1)\<close>: control falls through
  to the \<open>printf\<close> of line 284 and to \<open>return (0)\<close>. Here the engine fails with
  status 5 on \<open>resize2fs /dev/hda1 800\<close>: the run prints that the filesystem is now 800
  blocks long and its exit status is 0.
\<close>

theorem C1_engine_failure_reports_success:
  "main K0 (W0\<lparr>resize_fs := (\<lambda>_ _ _ _. 5)\<rparr>) (cmd [] [''800'']) =
     ([Msg_banner, Call_check_if_mounted ''/dev/hda1'',
       Call_ext2fs_open ''/dev/hda1'' 1 Unix_io_manager,
       Call_get_device_size ''/dev/hda1'' 1024,
       Call_resize_fs fs0 800 0 False,
       Err_resize ''resize2fs'' 5 ''/dev/hda1'',
       Call_ext2fs_close fs0,
       Msg_now_long ''/dev/hda1'' 800], 0)"
  by (simp add: stage_defs example_defs)

section \<open>Mount probe errors\<close>

text \<open>
  C2, as stated: a run in which probing the mount state returns an error ends with a failure
  status before the filesystem is opened or the engine invoked. This fails: \<open>check_mount\<close>
  reports the error and returns (line 101), and \<open>main\<close> goes on. Here the probe fails
  with status 13 on \<open>resize2fs /dev/hda1\<close>: the filesystem is opened, the engine is
  invoked and the exit status is 0.
\<close>

theorem C2_probe_error_run_continues:
  "main K0 (W0\<lparr>ext2fs_check_if_mounted := (\<lambda>_. (13, 0))\<rparr>) (cmd [] []) =
     ([Msg_banner, Call_check_if_mounted ''/dev/hda1'', Err_mount_probe 13 ''/dev/hda1'',
       Call_ext2fs_open ''/dev/hda1'' 1 Unix_io_manager,
       Call_get_device_size ''/dev/hda1'' 1024,
       Call_resize_fs fs0 1000 0 False,
       Msg_now_long ''/dev/hda1'' 1000], 0)"
  by (simp add: stage_defs example_defs)

text \<open>
  C2, amended: for every run in which probing the mount state returns an error, the error
  is reported with the device and the run is not stopped by the mount gate: after the report
  it continues exactly as the run on a device that is probed as not mounted does, with the
  same later events and the same exit status.
\<close>

theorem C2_probe_error_not_fatal:
  assumes "parse_cmdline K W cl = (t1, Inr rq)"
    and "fst (ext2fs_check_if_mounted W (device_name rq)) = r" and "r \<noteq> 0"
  shows "\<exists>rest ec.
     main K W cl =
       (t1 @ [Call_check_if_mounted (device_name rq), Err_mount_probe r (device_name rq)] @ rest, ec) \<and>
     main K (W\<lparr>ext2fs_check_if_mounted := (\<lambda>_. (0, 0))\<rparr>) cl =
       (t1 @ [Call_check_if_mounted (device_name rq)] @ rest, ec)"
proof -
  let ?W' = "W\<lparr>ext2fs_check_if_mounted := (\<lambda>_. (0, 0))\<rparr>"
  have cm: "check_mount K W (device_name rq) =
      ([Call_check_if_mounted (device_name rq), Err_mount_probe r (device_name rq)], Inr ())"
    using assms(2,3) by (cases "ext2fs_check_if_mounted W (device_name rq)") (simp add: check_mount_def)
  have cm': "check_mount K ?W' (device_name rq) = ([Call_check_if_mounted (device_name rq)], Inr ())"
    by (simp add: check_mount_def)
  have p': "parse_cmdline K ?W' cl = (t1, Inr rq)"
    using assms(1) by (simp add: parse_cmdline_mounted_upd)
  have "main K W cl =
       (t1 @ [Call_check_if_mounted (device_name rq), Err_mount_probe r (device_name rq)] @
          fst (after_mount K W rq), snd (after_mount K W rq))"
    using assms(1) cm by (simp add: main_after_mount)
  moreover have "main K ?W' cl =
       (t1 @ [Call_check_if_mounted (device_name rq)] @ fst (after_mount K W rq),
        snd (after_mount K W rq))"
    using p' cm' by (simp add: main_after_mount after_mount_mounted_upd)
  ultimately show ?thesis by blast
qed

theorem C2_probe_error_not_fatal_witness:
  "parse_cmdline K0 (W0\<lparr>ext2fs_check_if_mounted := (\<lambda>_. (13, 0))\<rparr>) (cmd [] []) =
     ([Msg_banner], Inr (rq0 0 False False 0)) \<and>
   fst (ext2fs_check_if_mounted (W0\<lparr>ext2fs_check_if_mounted := (\<lambda>_. (13, 0))\<rparr>)
          (device_name (rq0 0 False False 0))) = 13 \<and>
   (\<exists>rest ec.
      main K0 (W0\<lparr>ext2fs_check_if_mounted := (\<lambda>_. (13, 0))\<rparr>) (cmd [] []) =
        ([Msg_banner] @ [Call_check_if_mounted ''/dev/hda1'', Err_mount_probe 13 ''/dev/hda1''] @ rest, ec) \<and>
      main K0 W0 (cmd [] []) = ([Msg_banner] @ [Call_check_if_mounted ''/dev/hda1''] @ rest, ec))"
proof -
  let ?W = "W0\<lparr>ext2fs_check_if_mounted := (\<lambda>_. (13, 0))\<rparr>"
  have p: "parse_cmdline K0 ?W (cmd [] []) = ([Msg_banner], Inr (rq0 0 False False 0))"
    by (simp add: parse_cmdline_def mk_request_def rq0_def example_defs)
  have r: "fst (ext2fs_check_if_mounted ?W (device_name (rq0 0 False False 0))) = 13"
    by simp
  have w: "?W\<lparr>ext2fs_check_if_mounted := (\<lambda>_. (0, 0))\<rparr> = W0"
    by (simp add: W0_def)
  show ?thesis
    using C2_probe_error_not_fatal [OF p r] p r by (simp add: w rq0_def)
qed

section \<open>A requested size beyond the device\<close>

text \<open>
  C3, as stated: with a requested size greater than the probed capacity and the force flag
  set, the run proceeds and the engine is invoked with exactly the requested size. This
  fails when the requested size is the current size of the filesystem: the test of line
  266 comes before the engine and ends the run. Here \<open>resize2fs -f /dev/hda1 1500\<close>
  runs on a filesystem of 1500 blocks in a device of 1000: the run ends with "nothing to
  do" and the engine is not invoked.
\<close>

theorem C3_forced_request_of_current_size:
  "main K0 (W0\<lparr>ext2fs_open := (\<lambda>_ _ _. (0, fs_sized 1500))\<rparr>) (cmd [(CHR ''f'', [])] [''1500'']) =
     ([Msg_banner, Call_check_if_mounted ''/dev/hda1'',
       Call_ext2fs_open ''/dev/hda1'' 1 Unix_io_manager,
       Call_get_device_size ''/dev/hda1'' 1024,
       Msg_nothing_to_do 1500], 0) \<and>
   engine_sizes (fst (main K0 (W0\<lparr>ext2fs_open := (\<lambda>_ _ _. (0, fs_sized 1500))\<rparr>)
      (cmd [(CHR ''f'', [])] [''1500'']))) = []"
  by (simp add: stage_defs example_defs fs_sized_def)

text \<open>
  C3, amended: for every run that has probed the device capacity, with a requested size
  (the value of \<open>new_size\<close>, a 32-bit block count) strictly greater than the capacity:
  without the force flag the run fails with exit status 1, its last event is the message
  carrying the capacity and the requested size, and the engine is never invoked; with the
  force flag, and a requested size that differs from the current block count of the
  filesystem, the engine is invoked once, with exactly the requested size.
\<close>

theorem C3_size_exceeds_device:
  assumes "main_prefix K W cl = (t, Inr (rq, fs, max_size))"
    and "new_size rq > max_size"
  shows "(\<not> force rq \<longrightarrow>
            main K W cl = (t @ [Msg_size_exceeds max_size (new_size rq)], 1) \<and>
            engine_sizes (fst (main K W cl)) = []) \<and>
         (force rq \<and> new_size rq \<noteq> s_blocks_count (fs_super fs) \<longrightarrow>
            engine_sizes (fst (main K W cl)) = [new_size rq])"
proof -
  have nz: "new_size rq \<noteq> 0" using assms(2) by auto
  have r: "resolve_size (new_size rq) max_size = new_size rq"
    using nz by (simp add: resolve_size_def)
  note pe = main_prefix_no_engine [OF assms(1)]
  note m = main_of_prefix [OF assms(1)]
  show ?thesis
    using assms(2) pe by (simp add: m resize_stage_def r Let_def engine_sizes_append)
qed

theorem C3_size_exceeds_device_witness:
  "main_prefix K0 W0 (cmd [(CHR ''f'', [])] [''1500'']) =
     ([Msg_banner, Call_check_if_mounted ''/dev/hda1'',
       Call_ext2fs_open ''/dev/hda1'' 1 Unix_io_manager,
       Call_get_device_size ''/dev/hda1'' 1024], Inr (rq0 0 False True 1500, fs0, 1000)) \<and>
   (1000 :: 32 word) < new_size (rq0 0 False True 1500) \<and>
   engine_sizes (fst (main K0 W0 (cmd [(CHR ''f'', [])] [''1500'']))) = [1500] \<and>
   main_prefix K0 W0 (cmd [] [''1500'']) =
     ([Msg_banner, Call_check_if_mounted ''/dev/hda1'',
       Call_ext2fs_open ''/dev/hda1'' 1 Unix_io_manager,
       Call_get_device_size ''/dev/hda1'' 1024], Inr (rq0 0 False False 1500, fs0, 1000)) \<and>
   main K0 W0 (cmd [] [''1500'']) =
     ([Msg_banner, Call_check_if_mounted ''/dev/hda1'',
       Call_ext2fs_open ''/dev/hda1'' 1 Unix_io_manager,
       Call_get_device_size ''/dev/hda1'' 1024, Msg_size_exceeds 1000 1500], 1) \<and>
   engine_sizes (fst (main K0 W0 (cmd [] [''1500'']))) = []"
proof -
  have p1: "main_prefix K0 W0 (cmd [(CHR ''f'', [])] [''1500'']) =
     ([Msg_banner, Call_check_if_mounted ''/dev/hda1'',
       Call_ext2fs_open ''/dev/hda1'' 1 Unix_io_manager,
       Call_get_device_size ''/dev/hda1'' 1024], Inr (rq0 0 False True 1500, fs0, 1000))"
    by (simp add: stage_defs example_defs rq0_def)
  have p2: "main_prefix K0 W0 (cmd [] [''1500'']) =
     ([Msg_banner, Call_check_if_mounted ''/dev/hda1'',
       Call_ext2fs_open ''/dev/hda1'' 1 Unix_io_manager,
       Call_get_device_size ''/dev/hda1'' 1024], Inr (rq0 0 False False 1500, fs0, 1000))"
    by (simp add: stage_defs example_defs rq0_def)
  have b1: "(1000 :: 32 word) < new_size (rq0 0 False True 1500)" by (simp add: rq0_def)
  have b2: "(1000 :: 32 word) < new_size (rq0 0 False False 1500)" by (simp add: rq0_def)
  have s: "s_blocks_count (fs_super fs0) = 500" by (simp add: fs0_def sb0_def)
  show ?thesis
    using C3_size_exceeds_device [OF p1 b1] C3_size_exceeds_device [OF p2 b2] p1 p2 b1
    by (simp add: rq0_def s)
qed

section \<open>Nothing to do\<close>

text \<open>
  C4, as stated: every run in which the resolved target size equals the current block
  count of the filesystem ends with exit status 0. This fails when that size is beyond
  the device and the force flag is not set: the test of line 259 comes before the
  comparison of line 266 and ends the run. Here \<open>resize2fs /dev/hda1 1500\<close> runs on a
  filesystem of 1500 blocks in a device of 1000: the size equals the current size, and
  the run reports that the size exceeds the device and ends with exit status 1.
\<close>

theorem C4_current_size_beyond_the_device:
  "resolve_size (new_size (rq0 0 False False 1500)) 1000 = s_blocks_count (fs_super (fs_sized 1500)) \<and>
   main_prefix K0 (W0\<lparr>ext2fs_open := (\<lambda>_ _ _. (0, fs_sized 1500))\<rparr>) (cmd [] [''1500'']) =
     ([Msg_banner, Call_check_if_mounted ''/dev/hda1'',
       Call_ext2fs_open ''/dev/hda1'' 1 Unix_io_manager,
       Call_get_device_size ''/dev/hda1'' 1024], Inr (rq0 0 False False 1500, fs_sized 1500, 1000)) \<and>
   main K0 (W0\<lparr>ext2fs_open := (\<lambda>_ _ _. (0, fs_sized 1500))\<rparr>) (cmd [] [''1500'']) =
     ([Msg_banner, Call_check_if_mounted ''/dev/hda1'',
       Call_ext2fs_open ''/dev/hda1'' 1 Unix_io_manager,
       Call_get_device_size ''/dev/hda1'' 1024,
       Msg_size_exceeds 1000 1500], 1)"
  by (simp add: stage_defs example_defs)

text \<open>
  C4, amended: for every run that has probed the capacity and in which the resolved
  target size passes the check of line 259 (the force flag is set, or the size is within
  the capacity) and equals the current block count of the filesystem, the run ends with
  exit status 0, the engine is not invoked and nothing is changed: the only event after
  the capacity probe is the "nothing to do" message.
\<close>

theorem C4_noop_when_size_is_current:
  assumes "main_prefix K W cl = (t, Inr (rq, fs, max_size))"
    and "force rq \<or> resolve_size (new_size rq) max_size \<le> max_size"
    and "resolve_size (new_size rq) max_size = s_blocks_count (fs_super fs)"
  shows "main K W cl = (t @ [Msg_nothing_to_do (s_blocks_count (fs_super fs))], 0) \<and>
         engine_sizes (fst (main K W cl)) = []"
proof -
  note pe = main_prefix_no_engine [OF assms(1)]
  note m = main_of_prefix [OF assms(1)]
  show ?thesis
    using assms(2,3) pe by (auto simp: m resize_stage_def Let_def engine_sizes_append)
qed

theorem C4_noop_when_size_is_current_witness:
  "main_prefix K0 (W0\<lparr>ext2fs_open := (\<lambda>_ _ _. (0, fs_sized 800))\<rparr>) (cmd [] [''800'']) =
     ([Msg_banner, Call_check_if_mounted ''/dev/hda1'',
       Call_ext2fs_open ''/dev/hda1'' 1 Unix_io_manager,
       Call_get_device_size ''/dev/hda1'' 1024], Inr (rq0 0 False False 800, fs_sized 800, 1000)) \<and>
   resolve_size (new_size (rq0 0 False False 800)) 1000 \<le> 1000 \<and>
   resolve_size (new_size (rq0 0 False False 800)) 1000 = s_blocks_count (fs_super (fs_sized 800)) \<and>
   main K0 (W0\<lparr>ext2fs_open := (\<lambda>_ _ _. (0, fs_sized 800))\<rparr>) (cmd [] [''800'']) =
     ([Msg_banner, Call_check_if_mounted ''/dev/hda1'',
       Call_ext2fs_open ''/dev/hda1'' 1 Unix_io_manager,
       Call_get_device_size ''/dev/hda1'' 1024, Msg_nothing_to_do 800], 0) \<and>
   engine_sizes (fst (main K0 (W0\<lparr>ext2fs_open := (\<lambda>_ _ _. (0, fs_sized 800))\<rparr>) (cmd [] [''800'']))) = []"
proof -
  let ?W = "W0\<lparr>ext2fs_open := (\<lambda>_ _ _. (0, fs_sized 800))\<rparr>"
  have p: "main_prefix K0 ?W (cmd [] [''800'']) =
     ([Msg_banner, Call_check_if_mounted ''/dev/hda1'',
       Call_ext2fs_open ''/dev/hda1'' 1 Unix_io_manager,
       Call_get_device_size ''/dev/hda1'' 1024], Inr (rq0 0 False False 800, fs_sized 800, 1000))"
    by (simp add: stage_defs example_defs rq0_def fs_sized_def)
  have a: "force (rq0 0 False False 800) \<or> resolve_size (new_size (rq0 0 False False 800)) 1000 \<le> 1000"
    by (simp add: rq0_def resolve_size_def)
  have b: "resolve_size (new_size (rq0 0 False False 800)) 1000 = s_blocks_count (fs_super (fs_sized 800))"
    by (simp add: rq0_def resolve_size_def fs_sized_def)
  have s: "s_blocks_count (fs_super (fs_sized 800)) = 800" by (simp add: fs_sized_def)
  show ?thesis
    using C4_noop_when_size_is_current [OF p a b] p a b by (simp add: s rq0_def)
qed

section \<open>The place of the flush\<close>

text \<open>
  C5, as stated: the flush, when requested, is performed only after the filesystem has
  been opened, the capacity probed, the size resolved and every gate passed. This fails:
  the flush stands at lines 198-217, right after \<open>check_mount\<close> and before
  \<open>ext2fs_open\<close>. In the run of \<open>resize2fs -F /dev/hda1\<close> the events before the
  \<open>ioctl\<close> are the banner, the mount probe and the \<open>open\<close> of the device for the
  flush; the filesystem is opened afterwards.
\<close>

theorem C5_flush_before_filesystem_is_opened:
  "main K0 W0 (cmd [(CHR ''F'', [])] []) =
     ([Msg_banner, Call_check_if_mounted ''/dev/hda1'',
       Call_open_rdonly ''/dev/hda1'', Call_ioctl_blkflsbuf 3, Call_close_fd 3,
       Call_ext2fs_open ''/dev/hda1'' 1 Unix_io_manager,
       Call_get_device_size ''/dev/hda1'' 1024,
       Call_resize_fs fs0 1000 0 False,
       Msg_now_long ''/dev/hda1'' 1000], 0) \<and>
   events_before is_flush (fst (main K0 W0 (cmd [(CHR ''F'', [])] []))) =
     [Msg_banner, Call_check_if_mounted ''/dev/hda1'', Call_open_rdonly ''/dev/hda1''] \<and>
   filter is_fs_open (events_before is_flush (fst (main K0 W0 (cmd [(CHR ''F'', [])] [])))) = []"
  by (simp add: stage_defs example_defs events_before_def)

text \<open>
  The lines after the flush do not read the \<open>flush\<close> variable: what \<open>main\<close> does
  from line 219 on is what it does after \<open>check_mount\<close> when no flush is requested.
\<close>

lemma flush_stage_not_requested: "\<not> flush rq \<Longrightarrow> flush_stage K W rq = ([], Inr ())"
  by (simp add: flush_stage_def)

lemma open_stage_flush_upd: "open_stage K W (rq\<lparr>flush := b\<rparr>) = open_stage K W rq"
  by (simp add: open_stage_def select_io_def Let_def split: prod.splits)

lemma resize_stage_flush_upd: "resize_stage K W (rq\<lparr>flush := b\<rparr>) fs mx = resize_stage K W rq fs mx"
  by (simp add: resize_stage_def Let_def)

lemma after_mount_no_flush:
  "after_mount K W (rq\<lparr>flush := False\<rparr>) =
     (case open_stage K W rq of
        (t4, Inl ec) \<Rightarrow> (t4, ec)
      | (t4, Inr (fs, max_size)) \<Rightarrow>
          (case resize_stage K W rq fs max_size of (t5, ec) \<Rightarrow> (t4 @ t5, ec)))"
  by (simp add: after_mount_def flush_stage_def open_stage_flush_upd resize_stage_flush_upd
      split: prod.splits sum.splits)

lemma after_mount_no_flush_kinds:
  assumes "e \<in> set (fst (after_mount K W (rq\<lparr>flush := False\<rparr>)))"
  shows "\<not> is_flush e \<and> \<not> is_flush_failure e"
proof (cases "open_stage K W rq")
  case (Pair t4 r4)
  show ?thesis
  proof (cases r4)
    case (Inl ec)
    with Pair assms open_stage_kinds [OF Pair, of e] show ?thesis
      by (simp add: after_mount_no_flush)
  next
    case (Inr y)
    obtain fs mx where y: "y = (fs, mx)" by (cases y)
    with Pair Inr assms open_stage_kinds [OF Pair, of e] resize_stage_kinds [of e K W rq fs mx]
    show ?thesis
      by (auto simp: after_mount_no_flush split: prod.splits)
  qed
qed

lemma after_mount_flush_ok:
  assumes "flush rq" and "BLKFLSBUF_defined K"
    and "\<not> open_rdonly W (device_name rq) < 0"
    and "\<not> ioctl_blkflsbuf W (open_rdonly W (device_name rq)) < 0"
  shows "after_mount K W rq =
     ([Call_open_rdonly (device_name rq), Call_ioctl_blkflsbuf (open_rdonly W (device_name rq)),
       Call_close_fd (open_rdonly W (device_name rq))] @ fst (after_mount K W (rq\<lparr>flush := False\<rparr>)),
      snd (after_mount K W (rq\<lparr>flush := False\<rparr>)))"
  unfolding after_mount_no_flush using assms
  by (simp add: after_mount_def flush_stage_def Let_def split: prod.splits sum.splits)

lemma after_mount_not_requested:
  assumes "\<not> flush rq"
  shows "after_mount K W rq = after_mount K W (rq\<lparr>flush := False\<rparr>)"
  unfolding after_mount_no_flush using assms
  by (simp add: after_mount_def flush_stage_def split: prod.splits sum.splits)

text \<open>
  C5, amended: in every run that gets past the command line and the mount gate, the flush
  is performed if and only if it was requested, and it stands right after the mount probe
  and before everything else: no opening of the filesystem, no capacity probe and no
  engine call precedes it, and the opening of the filesystem, the capacity probe, the
  remaining gates and the engine follow it exactly as in a run without a flush. A flush
  that fails ends the run with exit status 1 before the filesystem is opened: when
  BLKFLSBUF is not supported, when the device cannot be opened for the flush, and when the
  \<open>ioctl\<close> fails, the run ends with the report of that failure as its last event.
\<close>

theorem C5_flush_comes_before_open:
  assumes "parse_cmdline K W cl = (t1, Inr rq)"
    and "check_mount K W (device_name rq) = (t2, Inr ())"
  shows "(\<not> flush rq \<longrightarrow> filter is_flush (fst (main K W cl)) = []) \<and>
    (flush rq \<and> \<not> BLKFLSBUF_defined K \<longrightarrow>
       main K W cl = (t1 @ t2 @ [Msg_blkflsbuf_unsupported], 1)) \<and>
    (flush rq \<and> BLKFLSBUF_defined K \<and> open_rdonly W (device_name rq) < 0 \<longrightarrow>
       main K W cl =
         (t1 @ t2 @ [Call_open_rdonly (device_name rq), Err_open_for_flush (device_name rq)], 1)) \<and>
    (flush rq \<and> BLKFLSBUF_defined K \<and> \<not> open_rdonly W (device_name rq) < 0 \<and>
     ioctl_blkflsbuf W (open_rdonly W (device_name rq)) < 0 \<longrightarrow>
       main K W cl =
         (t1 @ t2 @ [Call_open_rdonly (device_name rq),
                     Call_ioctl_blkflsbuf (open_rdonly W (device_name rq)),
                     Err_flush (device_name rq)], 1)) \<and>
    (flush rq \<and> BLKFLSBUF_defined K \<and> \<not> open_rdonly W (device_name rq) < 0 \<and>
     \<not> ioctl_blkflsbuf W (open_rdonly W (device_name rq)) < 0 \<longrightarrow>
       main K W cl =
         (t1 @ t2 @ [Call_open_rdonly (device_name rq),
                     Call_ioctl_blkflsbuf (open_rdonly W (device_name rq)),
                     Call_close_fd (open_rdonly W (device_name rq))] @
            fst (after_mount K W (rq\<lparr>flush := False\<rparr>)),
          snd (after_mount K W (rq\<lparr>flush := False\<rparr>))) \<and>
       events_before is_flush (fst (main K W cl)) = t1 @ t2 @ [Call_open_rdonly (device_name rq)]) \<and>
    Call_check_if_mounted (device_name rq) \<in> set t2 \<and>
    (\<forall>e \<in> set (t1 @ t2). \<not> is_flush e \<and> \<not> is_fs_open e \<and> \<not> is_size_probe e \<and> \<not> is_engine e) \<and>
    (\<forall>e \<in> set (fst (after_mount K W (rq\<lparr>flush := False\<rparr>))). \<not> is_flush e)"
proof -
  let ?dev = "device_name rq" and ?rest = "after_mount K W (rq\<lparr>flush := False\<rparr>)"
  have m: "main K W cl = (t1 @ t2 @ fst (after_mount K W rq), snd (after_mount K W rq))"
    using assms by (simp add: main_after_mount)
  have k12: "\<not> is_flush e \<and> \<not> is_fs_open e \<and> \<not> is_size_probe e \<and> \<not> is_engine e"
    if "e \<in> set (t1 @ t2)" for e
    using that parse_cmdline_kinds [OF assms(1), of e] check_mount_kinds [OF assms(2), of e] by auto
  have krest: "\<not> is_flush e" if "e \<in> set (fst ?rest)" for e
    using that after_mount_no_flush_kinds by blast
  have ck: "Call_check_if_mounted ?dev \<in> set t2"
    using check_mount_hd [OF assms(2)] by auto
  have c0: "filter is_flush (fst (main K W cl)) = []" if "\<not> flush rq"
    using k12 krest by (auto simp: m after_mount_not_requested [OF that] filter_empty_conv)
  have c1: "main K W cl = (t1 @ t2 @ [Msg_blkflsbuf_unsupported], 1)"
    if "flush rq" "\<not> BLKFLSBUF_defined K"
    using that by (simp add: m after_mount_def flush_stage_def)
  have c2: "main K W cl = (t1 @ t2 @ [Call_open_rdonly ?dev, Err_open_for_flush ?dev], 1)"
    if "flush rq" "BLKFLSBUF_defined K" "open_rdonly W ?dev < 0"
    using that by (simp add: m after_mount_def flush_stage_def)
  have c3: "main K W cl = (t1 @ t2 @ [Call_open_rdonly ?dev,
              Call_ioctl_blkflsbuf (open_rdonly W ?dev), Err_flush ?dev], 1)"
    if "flush rq" "BLKFLSBUF_defined K" "\<not> open_rdonly W ?dev < 0"
       "ioctl_blkflsbuf W (open_rdonly W ?dev) < 0"
    using that by (simp add: m after_mount_def flush_stage_def Let_def)
  have c4: "main K W cl =
         (t1 @ t2 @ [Call_open_rdonly ?dev, Call_ioctl_blkflsbuf (open_rdonly W ?dev),
                     Call_close_fd (open_rdonly W ?dev)] @ fst ?rest, snd ?rest) \<and>
       events_before is_flush (fst (main K W cl)) = t1 @ t2 @ [Call_open_rdonly ?dev]"
    if f: "flush rq" "BLKFLSBUF_defined K" "\<not> open_rdonly W ?dev < 0"
       "\<not> ioctl_blkflsbuf W (open_rdonly W ?dev) < 0"
  proof -
    have tr: "main K W cl =
         (t1 @ t2 @ [Call_open_rdonly ?dev, Call_ioctl_blkflsbuf (open_rdonly W ?dev),
                     Call_close_fd (open_rdonly W ?dev)] @ fst ?rest, snd ?rest)"
      by (simp add: m after_mount_flush_ok [OF f])
    have "fst (main K W cl) = (t1 @ t2) @ [Call_open_rdonly ?dev,
            Call_ioctl_blkflsbuf (open_rdonly W ?dev), Call_close_fd (open_rdonly W ?dev)] @ fst ?rest"
      by (simp add: tr)
    then have "events_before is_flush (fst (main K W cl)) = (t1 @ t2) @ [Call_open_rdonly ?dev]"
      unfolding events_before_def using k12 by (simp add: takeWhile_skip)
    with tr show ?thesis by simp
  qed
  show ?thesis
    using c0 c1 c2 c3 c4 ck k12 krest by blast
qed

theorem C5_flush_comes_before_open_witness:
  "parse_cmdline K0 W0 (cmd [(CHR ''F'', [])] []) = ([Msg_banner], Inr (rq0 0 True False 0)) \<and>
   check_mount K0 W0 (device_name (rq0 0 True False 0)) = ([Call_check_if_mounted ''/dev/hda1''], Inr ()) \<and>
   flush (rq0 0 True False 0) \<and> BLKFLSBUF_defined K0 \<and>
   main K0 W0 (cmd [(CHR ''F'', [])] []) =
     ([Msg_banner, Call_check_if_mounted ''/dev/hda1'',
       Call_open_rdonly ''/dev/hda1'', Call_ioctl_blkflsbuf 3, Call_close_fd 3,
       Call_ext2fs_open ''/dev/hda1'' 1 Unix_io_manager,
       Call_get_device_size ''/dev/hda1'' 1024,
       Call_resize_fs fs0 1000 0 False,
       Msg_now_long ''/dev/hda1'' 1000], 0) \<and>
   ioctl_blkflsbuf (W0\<lparr>ioctl_blkflsbuf := (\<lambda>_. - 1)\<rparr>) 3 < 0 \<and>
   main K0 (W0\<lparr>ioctl_blkflsbuf := (\<lambda>_. - 1)\<rparr>) (cmd [(CHR ''F'', [])] []) =
     ([Msg_banner, Call_check_if_mounted ''/dev/hda1'',
       Call_open_rdonly ''/dev/hda1'', Call_ioctl_blkflsbuf 3, Err_flush ''/dev/hda1''], 1) \<and>
   open_rdonly (W0\<lparr>open_rdonly := (\<lambda>_. - 1)\<rparr>) ''/dev/hda1'' < 0 \<and>
   main K0 (W0\<lparr>open_rdonly := (\<lambda>_. - 1)\<rparr>) (cmd [(CHR ''F'', [])] []) =
     ([Msg_banner, Call_check_if_mounted ''/dev/hda1'',
       Call_open_rdonly ''/dev/hda1'', Err_open_for_flush ''/dev/hda1''], 1) \<and>
   \<not> BLKFLSBUF_defined (K0\<lparr>BLKFLSBUF_defined := False\<rparr>) \<and>
   main (K0\<lparr>BLKFLSBUF_defined := False\<rparr>) W0 (cmd [(CHR ''F'', [])] []) =
     ([Msg_banner, Call_check_if_mounted ''/dev/hda1'', Msg_blkflsbuf_unsupported], 1)"
proof -
  let ?cl = "cmd [(CHR ''F'', [])] []" and ?rq = "rq0 0 True False 0"
  let ?Wi = "W0\<lparr>ioctl_blkflsbuf := (\<lambda>_. - 1)\<rparr>" and ?Wo = "W0\<lparr>open_rdonly := (\<lambda>_. - 1)\<rparr>"
  let ?Kn = "K0\<lparr>BLKFLSBUF_defined := False\<rparr>"
  have p: "parse_cmdline K W ?cl = ([Msg_banner], Inr ?rq)" for K W
    by (simp add: parse_cmdline_def mk_request_def example_defs)
  have c: "check_mount K0 W0 (device_name ?rq) = ([Call_check_if_mounted ''/dev/hda1''], Inr ())"
    by (simp add: check_mount_def example_defs)
  have ci: "check_mount K0 ?Wi (device_name ?rq) = ([Call_check_if_mounted ''/dev/hda1''], Inr ())"
    by (simp add: check_mount_def example_defs)
  have co: "check_mount K0 ?Wo (device_name ?rq) = ([Call_check_if_mounted ''/dev/hda1''], Inr ())"
    by (simp add: check_mount_def example_defs)
  have cn: "check_mount ?Kn W0 (device_name ?rq) = ([Call_check_if_mounted ''/dev/hda1''], Inr ())"
    by (simp add: check_mount_def example_defs)
  have r: "after_mount K0 W0 (?rq\<lparr>flush := False\<rparr>) =
     ([Call_ext2fs_open ''/dev/hda1'' 1 Unix_io_manager,
       Call_get_device_size ''/dev/hda1'' 1024,
       Call_resize_fs fs0 1000 0 False,
       Msg_now_long ''/dev/hda1'' 1000], 0)"
    by (simp add: after_mount_def stage_defs example_defs)
  have v: "flush ?rq" "device_name ?rq = ''/dev/hda1''" "BLKFLSBUF_defined K0"
    "open_rdonly W0 ''/dev/hda1'' = 3" "ioctl_blkflsbuf W0 3 = 0"
    "open_rdonly ?Wi ''/dev/hda1'' = 3" "BLKFLSBUF_defined ?Kn = False"
    by (simp_all add: example_defs)
  show ?thesis
    using C5_flush_comes_before_open [OF p c] C5_flush_comes_before_open [OF p ci]
      C5_flush_comes_before_open [OF p co] C5_flush_comes_before_open [OF p cn] c
    by (simp add: p r v)
qed

text \<open>
  Read off the events of a run: a run that contains the \<open>ioctl\<close> was asked to flush and
  has probed the mount state before it, and a run that contains the report of a failed
  flush has exit status 1 and has not opened the filesystem.
\<close>

lemma flush_order:
  assumes "Call_ioctl_blkflsbuf fd \<in> set (fst (main K W cl))"
  shows "(\<exists>rq. parse_cmdline K W cl = ([Msg_banner], Inr rq) \<and> flush rq \<and>
            Call_check_if_mounted (device_name rq) \<in> set (events_before is_flush (fst (main K W cl)))) \<and>
         (\<forall>e \<in> set (events_before is_flush (fst (main K W cl))).
            \<not> is_fs_open e \<and> \<not> is_size_probe e \<and> \<not> is_engine e)"
proof -
  have fl: "is_flush (Call_ioctl_blkflsbuf fd)" by simp
  show ?thesis
  proof (cases K W cl rule: main_cases)
    case (c_parse t1)
    with assms fl parse_cmdline_kinds [OF c_parse(1), of "Call_ioctl_blkflsbuf fd"] show ?thesis by auto
  next
    case (c_mounted rq t2)
    with assms fl check_mount_kinds [OF c_mounted(2), of "Call_ioctl_blkflsbuf fd"] show ?thesis by auto
  next
    case (c_flush rq t2 t3)
    have in3: "Call_ioctl_blkflsbuf fd \<in> set t3"
      using assms fl check_mount_kinds [OF c_flush(2), of "Call_ioctl_blkflsbuf fd"] by (auto simp: c_flush(4))
    with flush_stage_Inl [OF c_flush(3)]
    have t3: "t3 = [Call_open_rdonly (device_name rq),
                Call_ioctl_blkflsbuf (open_rdonly W (device_name rq)),
                Err_flush (device_name rq)]" and "flush rq"
      by auto
    have tr: "fst (main K W cl) = (Msg_banner # t2) @ t3" by (simp add: c_flush(4))
    have tw: "events_before is_flush (fst (main K W cl)) =
              (Msg_banner # t2) @ [Call_open_rdonly (device_name rq)]"
      unfolding events_before_def tr
      using check_mount_kinds [OF c_flush(2)] by (subst takeWhile_skip) (auto simp: t3)
    show ?thesis
      using c_flush(1) \<open>flush rq\<close> check_mount_hd [OF c_flush(2)] check_mount_kinds [OF c_flush(2)]
      by (auto simp: tw)
  next
    case (c_open rq t2 t3 t4)
    have in3: "Call_ioctl_blkflsbuf fd \<in> set t3"
      using assms fl check_mount_kinds [OF c_open(2), of "Call_ioctl_blkflsbuf fd"] open_stage_kinds [OF c_open(4), of "Call_ioctl_blkflsbuf fd"]
      by (auto simp: c_open(5))
    with flush_stage_Inr [OF c_open(3)]
    have t3: "t3 = [Call_open_rdonly (device_name rq),
                Call_ioctl_blkflsbuf (open_rdonly W (device_name rq)),
                Call_close_fd (open_rdonly W (device_name rq))]" and "flush rq"
      by auto
    have tr: "fst (main K W cl) = (Msg_banner # t2) @ t3 @ t4" by (simp add: c_open(5))
    have tw: "events_before is_flush (fst (main K W cl)) =
              (Msg_banner # t2) @ [Call_open_rdonly (device_name rq)]"
      unfolding events_before_def tr
      using check_mount_kinds [OF c_open(2)] by (subst takeWhile_skip) (auto simp: t3)
    show ?thesis
      using c_open(1) \<open>flush rq\<close> check_mount_hd [OF c_open(2)] check_mount_kinds [OF c_open(2)]
      by (auto simp: tw)
  next
    case (c_resize rq t2 t3 t4 fs mx)
    have in3: "Call_ioctl_blkflsbuf fd \<in> set t3"
      using assms fl check_mount_kinds [OF c_resize(2), of "Call_ioctl_blkflsbuf fd"]
        open_stage_kinds [OF c_resize(4), of "Call_ioctl_blkflsbuf fd"]
        resize_stage_kinds [of "Call_ioctl_blkflsbuf fd" K W rq fs mx]
      by (auto simp: c_resize(6))
    with flush_stage_Inr [OF c_resize(3)]
    have t3: "t3 = [Call_open_rdonly (device_name rq),
                Call_ioctl_blkflsbuf (open_rdonly W (device_name rq)),
                Call_close_fd (open_rdonly W (device_name rq))]" and "flush rq"
      by auto
    have tr: "fst (main K W cl) = (Msg_banner # t2) @ t3 @ t4 @ fst (resize_stage K W rq fs mx)"
      by (simp add: c_resize(6))
    have tw: "events_before is_flush (fst (main K W cl)) =
              (Msg_banner # t2) @ [Call_open_rdonly (device_name rq)]"
      unfolding events_before_def tr
      using check_mount_kinds [OF c_resize(2)] by (subst takeWhile_skip) (auto simp: t3)
    show ?thesis
      using c_resize(1) \<open>flush rq\<close> check_mount_hd [OF c_resize(2)] check_mount_kinds [OF c_resize(2)]
      by (auto simp: tw)
  qed
qed

lemma failed_flush_is_fatal:
  assumes "e \<in> set (fst (main K W cl))" and "is_flush_failure e"
  shows "snd (main K W cl) = 1 \<and>
         (\<forall>x \<in> set (fst (main K W cl)). \<not> is_fs_open x \<and> \<not> is_size_probe x \<and> \<not> is_engine x)"
proof (cases K W cl rule: main_cases)
  case (c_parse t1)
  then show ?thesis using assms parse_cmdline_kinds [OF c_parse(1), of e] by simp
next
  case (c_mounted rq t2)
  then show ?thesis using assms check_mount_kinds [OF c_mounted(2), of e] by auto
next
  case (c_flush rq t2 t3)
  then show ?thesis
    using check_mount_kinds [OF c_flush(2)] flush_stage_kinds [OF c_flush(3)] by auto
next
  case (c_open rq t2 t3 t4)
  have "\<not> is_flush_failure x" if "x \<in> set (fst (main K W cl))" for x
    using that check_mount_kinds [OF c_open(2)] flush_stage_Inr_kinds [OF c_open(3)]
      open_stage_kinds [OF c_open(4)]
    by (auto simp: c_open(5))
  with assms show ?thesis by blast
next
  case (c_resize rq t2 t3 t4 fs mx)
  have "\<not> is_flush_failure x" if "x \<in> set (fst (main K W cl))" for x
    using that check_mount_kinds [OF c_resize(2)] flush_stage_Inr_kinds [OF c_resize(3)]
      open_stage_kinds [OF c_resize(4)] resize_stage_kinds [of x K W rq fs mx]
    by (auto simp: c_resize(6))
  with assms show ?thesis by blast
qed

section \<open>The progress function\<close>

text \<open>
  C6, as stated: on the events (A,0,100), (A,50,100), (A,100,100), (B,0,10), (B,10,10) the
  function makes one update call per intermediate event only, and two close calls. The
  update of line 81 is not in an \<open>else\<close> branch: it runs for every event while a meter
  is open, also for the event that begins a pass and the one that completes it. With a
  meter library that always succeeds there are 5 update calls for 1 intermediate event;
  and when the creation of the meter fails there is no close call at all.
\<close>

theorem C6_update_on_every_event:
  "length (filter is_update (snd (progress_events K0 (\<lambda>_ _ _ _ _ _. (0, 7)) (\<lparr>prog_data = 0\<rparr>, [])
      [(1, 0, 100), (1, 50, 100), (1, 100, 100), (2, 0, 10), (2, 10, 10)]))) = 5 \<and>
   length (filter intermediate
      [(1, 0, 100), (1, 50, 100), (1, 100, 100), (2, 0, 10), (2, 10, 10)]) = 1 \<and>
   length (filter is_close (snd (progress_events K0 (\<lambda>_ _ _ _ _ _. (12, 7)) (\<lparr>prog_data = 0\<rparr>, [])
      [(1, 0, 100), (1, 50, 100), (1, 100, 100), (2, 0, 10), (2, 10, 10)]))) = 0"
  by (simp add: resize_progress_func_def begin_pass_def Let_def intermediate_def)

text \<open>
  C6, amended: when each creation of a meter succeeds, the function, started with no meter,
  makes on that sequence exactly two meter-creation calls, exactly one update call per
  event (five: the events with current 0 and with current at the maximum are passed to the
  meter too), exactly two close calls, each of the meter created last, and leaves
  \<open>prog_data\<close> null. The calls are, in order: for pass A the begin message, the
  creation, the updates 0, 50, 100 and the close; for pass B the begin message, the
  creation, the updates 0, 10 and the close.
\<close>

theorem C6_progress_sequence:
  assumes "\<forall>h l w p m c. fst (init h l w p m c) = 0 \<and> snd (init h l w p m c) \<noteq> 0"
  shows "let p1 = snd (init [Print_begin_pass passA 100] (pass_label K passA) 30 40 100 0);
             cs1 = [Print_begin_pass passA 100, Progress_init (pass_label K passA) 30 40 100 0,
                    Progress_update p1 0, Progress_update p1 50, Progress_update p1 100,
                    Progress_close p1];
             p2 = snd (init (cs1 @ [Print_begin_pass passB 10]) (pass_label K passB) 30 40 10 0);
             cs2 = cs1 @ [Print_begin_pass passB 10, Progress_init (pass_label K passB) 30 40 10 0,
                    Progress_update p2 0, Progress_update p2 10, Progress_close p2];
             st = progress_events K init (\<lparr>prog_data = 0\<rparr>, [])
                    [(passA, 0, 100), (passA, 50, 100), (passA, 100, 100), (passB, 0, 10), (passB, 10, 10)]
         in st = (\<lparr>prog_data = 0\<rparr>, cs2) \<and>
            length (filter is_init (snd st)) = 2 \<and>
            length (filter is_update (snd st)) = 5 \<and>
            length (filter is_close (snd st)) = 2"
  using assms
  by (simp add: resize_progress_func_def begin_pass_def Let_def split_beta)

theorem C6_progress_sequence_witness:
  "(\<forall>h l w p m c. fst ((\<lambda>_ _ _ _ _ _. (0::int, 7::nat)) h l w p m c) = 0 \<and>
       snd ((\<lambda>_ _ _ _ _ _. (0::int, 7::nat)) (h::prog_call list) (l::string) (w::nat) (p::nat) (m::nat) (c::nat)) \<noteq> 0) \<and>
   progress_events K0 (\<lambda>_ _ _ _ _ _. (0, 7)) (\<lparr>prog_data = 0\<rparr>, [])
      [(1, 0, 100), (1, 50, 100), (1, 100, 100), (2, 0, 10), (2, 10, 10)] =
     (\<lparr>prog_data = 0\<rparr>,
      [Print_begin_pass 1 100, Progress_init ''Extending the inode table'' 30 40 100 0,
       Progress_update 7 0, Progress_update 7 50, Progress_update 7 100, Progress_close 7,
       Print_begin_pass 2 10, Progress_init ''Relocating blocks'' 30 40 10 0,
       Progress_update 7 0, Progress_update 7 10, Progress_close 7])"
proof -
  have h: "\<forall>h l w p m c. fst ((\<lambda>_ _ _ _ _ _. (0::int, 7::nat)) h l w p m c) = 0 \<and>
       snd ((\<lambda>_ _ _ _ _ _. (0::int, 7::nat)) (h::prog_call list) (l::string) (w::nat) (p::nat) (m::nat) (c::nat)) \<noteq> 0"
    by simp
  show ?thesis
    using C6_progress_sequence [OF h, of 1 K0 2] by (simp add: Let_def pass_label_def K0_def)
qed

section \<open>The feature check\<close>

text \<open>
  C7. With the force flag the mount gate and the feature gate should still be enforced: a
  mounted device fails, and a feature bit that is not recognised, compatible or read-only
  compatible, fails with the unsupported-feature error. The test of lines 238-239 masks
  \<open>s_feature_compat\<close> with the supported compatible features, and then masks
  \<open>s_feature_incompat\<close>, not \<open>s_feature_ro_compat\<close>, with the supported read-only
  compatible features: the read-only compatible features of the filesystem are never
  looked at. Here \<open>resize2fs -f /dev/hda1\<close> runs on a filesystem whose read-only
  compatible features have the unknown bit 0x8000: the engine is invoked and the exit
  status is 0.
\<close>

theorem C7_ro_compat_not_checked:
  "main K0 (W0\<lparr>ext2fs_open := (\<lambda>_ _ _. (0, fs0\<lparr>fs_super := sb0\<lparr>s_feature_ro_compat := 0x8000\<rparr>\<rparr>))\<rparr>)
      (cmd [(CHR ''f'', [])] []) =
     ([Msg_banner, Call_check_if_mounted ''/dev/hda1'',
       Call_ext2fs_open ''/dev/hda1'' 1 Unix_io_manager,
       Call_get_device_size ''/dev/hda1'' 1024,
       Call_resize_fs (fs0\<lparr>fs_super := sb0\<lparr>s_feature_ro_compat := 0x8000\<rparr>\<rparr>) 1000 0 False,
       Msg_now_long ''/dev/hda1'' 1000], 0)"
  by (simp add: stage_defs example_defs)

text \<open>
  The rest of the claim holds: the feature test does not depend on the read-only
  compatible features at all, a device reported as mounted ends the run whatever the
  options are, an unknown compatible feature ends it too, and with the force flag neither
  the capacity nor the check times keep the engine from being invoked.
\<close>

lemma unsupp_feature_ignores_ro_compat:
  "unsupp_feature K (s\<lparr>s_feature_ro_compat := x\<rparr>) = unsupp_feature K s"
  by (simp add: unsupp_feature_def)

lemma mounted_is_fatal:
  assumes "parse_cmdline K W cl = (t1, Inr rq)"
    and "ext2fs_check_if_mounted W (device_name rq) = (0, mf)"
    and "mf AND EXT2_MF_MOUNTED K \<noteq> 0"
  shows "main K W cl =
           (t1 @ [Call_check_if_mounted (device_name rq), Msg_is_mounted (device_name rq)], 1)"
  using assms by (simp add: main_def main_prefix_def check_mount_def)

lemma unknown_compat_feature_is_fatal:
  assumes "ext2fs_open W (device_name rq) (EXT2_FLAG_RW K) (snd (select_io K rq)) = (0, fs)"
    and "s_feature_compat (fs_super fs) AND NOT (EXT2_LIB_FEATURE_COMPAT_SUPP K) \<noteq> 0"
  shows "open_stage K W rq =
           (fst (select_io K rq) @
              [Call_ext2fs_open (device_name rq) (EXT2_FLAG_RW K) (snd (select_io K rq)),
               Err_unsupp_feature (program_name rq) (device_name rq)], Inl 1)"
  using assms by (cases "select_io K rq") (simp add: open_stage_def unsupp_feature_def)

lemma force_skips_capacity_and_check_times:
  assumes "main_prefix K W cl = (t, Inr (rq, fs, max_size))"
    and "force rq"
    and "resolve_size (new_size rq) max_size \<noteq> s_blocks_count (fs_super fs)"
  shows "engine_sizes (fst (main K W cl)) = [resolve_size (new_size rq) max_size]"
  using assms main_prefix_no_engine [OF assms(1)]
  by (simp add: main_of_prefix [OF assms(1)] resize_stage_def Let_def engine_sizes_append)

section \<open>The place of the no-op exit\<close>

text \<open>
  C8, as stated: when the resolved size equals the current size, the successful exit is
  taken before the mount gate, the feature gate and the consistency gate have been
  checked. This fails for the first two: \<open>check_mount\<close> is called at line 196 and the
  feature test stands at lines 238-243, both before the comparison of line 266. With a
  request of 500 blocks for a filesystem of 500 blocks, a mounted device ends the run
  with exit status 1, and so does an unknown compatible feature.
\<close>

theorem C8_gates_run_before_noop_exit:
  "main K0 (W0\<lparr>ext2fs_check_if_mounted := (\<lambda>_. (0, 1))\<rparr>) (cmd [] [''500'']) =
     ([Msg_banner, Call_check_if_mounted ''/dev/hda1'', Msg_is_mounted ''/dev/hda1''], 1) \<and>
   main K0 (W0\<lparr>ext2fs_open := (\<lambda>_ _ _. (0, fs0\<lparr>fs_super := sb0\<lparr>s_feature_compat := 4\<rparr>\<rparr>))\<rparr>)
      (cmd [] [''500'']) =
     ([Msg_banner, Call_check_if_mounted ''/dev/hda1'',
       Call_ext2fs_open ''/dev/hda1'' 1 Unix_io_manager,
       Err_unsupp_feature ''resize2fs'' ''/dev/hda1''], 1) \<and>
   s_blocks_count (fs_super fs0) = 500 \<and>
   s_blocks_count (fs_super (fs0\<lparr>fs_super := sb0\<lparr>s_feature_compat := 4\<rparr>\<rparr>)) = 500"
  by (simp add: stage_defs example_defs)

text \<open>
  The no-op message occurs in the last stage of a run only.
\<close>

lemma resize_stage_nothing_to_do:
  assumes "Msg_nothing_to_do n \<in> set (fst (resize_stage K W rq fs mx))"
  shows "resize_stage K W rq fs mx = ([Msg_nothing_to_do n], 0) \<and> n = s_blocks_count (fs_super fs)"
  using assms by (auto simp: resize_stage_def Let_def split: if_splits)

lemma unsupp_feature_is_fatal:
  assumes "parse_cmdline K W cl = (t1, Inr rq)"
    and "check_mount K W (device_name rq) = (t2, Inr ())"
    and "flush_stage K W rq = (t3, Inr ())"
    and "ext2fs_open W (device_name rq) (EXT2_FLAG_RW K) (snd (select_io K rq)) = (0, fs)"
    and "unsupp_feature K (fs_super fs)"
  shows "main K W cl =
           (t1 @ t2 @ t3 @ fst (select_io K rq) @
              [Call_ext2fs_open (device_name rq) (EXT2_FLAG_RW K) (snd (select_io K rq)),
               Err_unsupp_feature (program_name rq) (device_name rq)], 1)"
  using assms
  by (cases "select_io K rq") (simp add: main_def main_prefix_def open_stage_def)

text \<open>
  C8, amended: when the resolved target size (one that passes the check of line 259)
  equals the current size, the successful exit is taken after the mount gate and the
  feature gate have been checked and passed, and before the consistency gate only. Before
  it: the mount probe has been called and has not reported a mounted device, the
  filesystem has been opened and its features have passed the test; and whatever the
  sizes are, a device reported as mounted ends the run with exit status 1 at the mount
  gate, and a filesystem that fails the feature test ends it with exit status 1 at the
  feature gate. After it: the run ends with exit status 0 and without the request to run
  e2fsck, whatever the force flag and the check and modification times of the filesystem
  are.
\<close>

theorem C8_noop_exit_follows_mount_and_feature_gates:
  "(main_prefix K W cl = (t, Inr (rq, fs, mx)) \<and>
    (force rq \<or> resolve_size (new_size rq) mx \<le> mx) \<and>
    resolve_size (new_size rq) mx = s_blocks_count (fs_super fs) \<longrightarrow>
      main K W cl = (t @ [Msg_nothing_to_do (s_blocks_count (fs_super fs))], 0) \<and>
      Msg_run_e2fsck (device_name rq) \<notin> set (fst (main K W cl)) \<and>
      Call_check_if_mounted (device_name rq) \<in> set t \<and>
      (fst (ext2fs_check_if_mounted W (device_name rq)) \<noteq> 0 \<or>
       snd (ext2fs_check_if_mounted W (device_name rq)) AND EXT2_MF_MOUNTED K = 0) \<and>
      Call_ext2fs_open (device_name rq) (EXT2_FLAG_RW K) (snd (select_io K rq)) \<in> set t \<and>
      ext2fs_open W (device_name rq) (EXT2_FLAG_RW K) (snd (select_io K rq)) = (0, fs) \<and>
      \<not> unsupp_feature K (fs_super fs)) \<and>
   (parse_cmdline K W cl = (t1, Inr rq1) \<and>
    ext2fs_check_if_mounted W (device_name rq1) = (0, mf) \<and> mf AND EXT2_MF_MOUNTED K \<noteq> 0 \<longrightarrow>
      main K W cl =
        (t1 @ [Call_check_if_mounted (device_name rq1), Msg_is_mounted (device_name rq1)], 1)) \<and>
   (parse_cmdline K W cl = (t1, Inr rq1) \<and>
    check_mount K W (device_name rq1) = (t2, Inr ()) \<and>
    flush_stage K W rq1 = (t3, Inr ()) \<and>
    ext2fs_open W (device_name rq1) (EXT2_FLAG_RW K) (snd (select_io K rq1)) = (0, fs1) \<and>
    unsupp_feature K (fs_super fs1) \<longrightarrow>
      main K W cl =
        (t1 @ t2 @ t3 @ fst (select_io K rq1) @
           [Call_ext2fs_open (device_name rq1) (EXT2_FLAG_RW K) (snd (select_io K rq1)),
            Err_unsupp_feature (program_name rq1) (device_name rq1)], 1))"
proof -
  have a: "main K W cl = (t @ [Msg_nothing_to_do (s_blocks_count (fs_super fs))], 0) \<and>
      Msg_run_e2fsck (device_name rq) \<notin> set (fst (main K W cl)) \<and>
      Call_check_if_mounted (device_name rq) \<in> set t \<and>
      (fst (ext2fs_check_if_mounted W (device_name rq)) \<noteq> 0 \<or>
       snd (ext2fs_check_if_mounted W (device_name rq)) AND EXT2_MF_MOUNTED K = 0) \<and>
      Call_ext2fs_open (device_name rq) (EXT2_FLAG_RW K) (snd (select_io K rq)) \<in> set t \<and>
      ext2fs_open W (device_name rq) (EXT2_FLAG_RW K) (snd (select_io K rq)) = (0, fs) \<and>
      \<not> unsupp_feature K (fs_super fs)"
    if pre: "main_prefix K W cl = (t, Inr (rq, fs, mx))"
      and cap: "force rq \<or> resolve_size (new_size rq) mx \<le> mx"
      and eq: "resolve_size (new_size rq) mx = s_blocks_count (fs_super fs)"
  proof -
    from main_prefix_Inr [OF pre] obtain t2 t3 t4 where
      cm: "check_mount K W (device_name rq) = (t2, Inr ())" and
      fl: "flush_stage K W rq = (t3, Inr ())" and
      op: "open_stage K W rq = (t4, Inr (fs, mx))" and
      t: "t = [Msg_banner] @ t2 @ t3 @ t4" by blast
    have m: "main K W cl = (t @ [Msg_nothing_to_do (s_blocks_count (fs_super fs))], 0)"
      using cap eq by (auto simp: main_of_prefix [OF pre] resize_stage_def Let_def)
    have ck: "Call_check_if_mounted (device_name rq) \<in> set t"
      using check_mount_hd [OF cm] by (auto simp: t)
    have mt: "fst (ext2fs_check_if_mounted W (device_name rq)) \<noteq> 0 \<or>
              snd (ext2fs_check_if_mounted W (device_name rq)) AND EXT2_MF_MOUNTED K = 0"
      using check_mount_Inr [OF cm] by auto
    note o = open_stage_Inr [OF op]
    have oe: "Call_ext2fs_open (device_name rq) (EXT2_FLAG_RW K) (snd (select_io K rq)) \<in> set t"
      using o by (simp add: t)
    have ne: "Msg_run_e2fsck (device_name rq) \<notin> set (fst (main K W cl))"
      using check_mount_Inr [OF cm] flush_stage_Inr [OF fl] o select_io_cases [of K rq]
      by (auto simp: m t)
    show ?thesis using m ne ck mt oe o by blast
  qed
  have b: "main K W cl =
        (t1 @ [Call_check_if_mounted (device_name rq1), Msg_is_mounted (device_name rq1)], 1)"
    if "parse_cmdline K W cl = (t1, Inr rq1)"
      "ext2fs_check_if_mounted W (device_name rq1) = (0, mf)" "mf AND EXT2_MF_MOUNTED K \<noteq> 0"
    using that by (simp add: main_def main_prefix_def check_mount_def)
  show ?thesis
    using a b unsupp_feature_is_fatal [of K W cl t1 rq1 t2 t3 fs1] by blast
qed

theorem C8_noop_exit_follows_mount_and_feature_gates_witness:
  "main_prefix K0 (W0\<lparr>ext2fs_open := (\<lambda>_ _ _. (0, fs0\<lparr>fs_super := sb0\<lparr>s_mtime := 300\<rparr>\<rparr>))\<rparr>)
       (cmd [] [''500'']) =
     ([Msg_banner, Call_check_if_mounted ''/dev/hda1'',
       Call_ext2fs_open ''/dev/hda1'' 1 Unix_io_manager,
       Call_get_device_size ''/dev/hda1'' 1024],
      Inr (rq0 0 False False 500, fs0\<lparr>fs_super := sb0\<lparr>s_mtime := 300\<rparr>\<rparr>, 1000)) \<and>
   \<not> force (rq0 0 False False 500) \<and>
   resolve_size (new_size (rq0 0 False False 500)) 1000 \<le> 1000 \<and>
   resolve_size (new_size (rq0 0 False False 500)) 1000 =
     s_blocks_count (fs_super (fs0\<lparr>fs_super := sb0\<lparr>s_mtime := 300\<rparr>\<rparr>)) \<and>
   s_lastcheck (sb0\<lparr>s_mtime := 300\<rparr>) < s_mtime (sb0\<lparr>s_mtime := 300\<rparr>) \<and>
   main K0 (W0\<lparr>ext2fs_open := (\<lambda>_ _ _. (0, fs0\<lparr>fs_super := sb0\<lparr>s_mtime := 300\<rparr>\<rparr>))\<rparr>)
       (cmd [] [''500'']) =
     ([Msg_banner, Call_check_if_mounted ''/dev/hda1'',
       Call_ext2fs_open ''/dev/hda1'' 1 Unix_io_manager,
       Call_get_device_size ''/dev/hda1'' 1024, Msg_nothing_to_do 500], 0) \<and>
   parse_cmdline K0 (W0\<lparr>ext2fs_check_if_mounted := (\<lambda>_. (0, 1))\<rparr>) (cmd [] [''500'']) =
     ([Msg_banner], Inr (rq0 0 False False 500)) \<and>
   ext2fs_check_if_mounted (W0\<lparr>ext2fs_check_if_mounted := (\<lambda>_. (0, 1))\<rparr>)
     (device_name (rq0 0 False False 500)) = (0, 1) \<and>
   (1 :: 32 word) AND EXT2_MF_MOUNTED K0 \<noteq> 0 \<and>
   main K0 (W0\<lparr>ext2fs_check_if_mounted := (\<lambda>_. (0, 1))\<rparr>) (cmd [] [''500'']) =
     ([Msg_banner, Call_check_if_mounted ''/dev/hda1'', Msg_is_mounted ''/dev/hda1''], 1) \<and>
   unsupp_feature K0 (fs_super (fs0\<lparr>fs_super := sb0\<lparr>s_feature_compat := 4\<rparr>\<rparr>)) \<and>
   main K0 (W0\<lparr>ext2fs_open := (\<lambda>_ _ _. (0, fs0\<lparr>fs_super := sb0\<lparr>s_feature_compat := 4\<rparr>\<rparr>))\<rparr>)
       (cmd [] [''500'']) =
     ([Msg_banner, Call_check_if_mounted ''/dev/hda1'',
       Call_ext2fs_open ''/dev/hda1'' 1 Unix_io_manager,
       Err_unsupp_feature ''resize2fs'' ''/dev/hda1''], 1)"
proof -
  let ?fs = "fs0\<lparr>fs_super := sb0\<lparr>s_mtime := 300\<rparr>\<rparr>"
  let ?Ws = "W0\<lparr>ext2fs_open := (\<lambda>_ _ _. (0, ?fs))\<rparr>"
  let ?Wm = "W0\<lparr>ext2fs_check_if_mounted := (\<lambda>_. (0, 1))\<rparr>"
  let ?fu = "fs0\<lparr>fs_super := sb0\<lparr>s_feature_compat := 4\<rparr>\<rparr>"
  let ?Wu = "W0\<lparr>ext2fs_open := (\<lambda>_ _ _. (0, ?fu))\<rparr>"
  let ?cl = "cmd [] [''500'']" and ?rq = "rq0 0 False False 500"
  have pre: "main_prefix K0 ?Ws ?cl =
     ([Msg_banner, Call_check_if_mounted ''/dev/hda1'',
       Call_ext2fs_open ''/dev/hda1'' 1 Unix_io_manager,
       Call_get_device_size ''/dev/hda1'' 1024], Inr (?rq, ?fs, 1000))"
    by (simp add: stage_defs example_defs)
  have cap: "force ?rq \<or> resolve_size (new_size ?rq) 1000 \<le> 1000"
    by (simp add: rq0_def resolve_size_def)
  have eq: "resolve_size (new_size ?rq) 1000 = s_blocks_count (fs_super ?fs)"
    by (simp add: example_defs resolve_size_def)
  have st: "s_lastcheck (sb0\<lparr>s_mtime := 300\<rparr>) < s_mtime (sb0\<lparr>s_mtime := 300\<rparr>)"
    "\<not> force ?rq" "s_blocks_count (fs_super ?fs) = 500"
    by (simp_all add: example_defs)
  have p: "parse_cmdline K0 W ?cl = ([Msg_banner], Inr ?rq)" if "strtoul W = decimal 0" for W
    using that by (simp add: parse_cmdline_def mk_request_def example_defs)
  have pm: "parse_cmdline K0 ?Wm ?cl = ([Msg_banner], Inr ?rq)" by (rule p) (simp add: W0_def)
  have pu: "parse_cmdline K0 ?Wu ?cl = ([Msg_banner], Inr ?rq)" by (rule p) (simp add: W0_def)
  have mm: "ext2fs_check_if_mounted ?Wm (device_name ?rq) = (0, 1)" by simp
  have mf: "(1 :: 32 word) AND EXT2_MF_MOUNTED K0 \<noteq> 0" by (simp add: K0_def)
  have cu: "check_mount K0 ?Wu (device_name ?rq) = ([Call_check_if_mounted ''/dev/hda1''], Inr ())"
    by (simp add: check_mount_def example_defs)
  have fu: "flush_stage K0 ?Wu ?rq = ([], Inr ())" by (simp add: flush_stage_def rq0_def)
  have ou: "ext2fs_open ?Wu (device_name ?rq) (EXT2_FLAG_RW K0) (snd (select_io K0 ?rq)) = (0, ?fu)"
    by simp
  have uu: "unsupp_feature K0 (fs_super ?fu)" by (simp add: unsupp_feature_def example_defs)
  have sel: "select_io K0 ?rq = ([], Unix_io_manager)" by (simp add: select_io_def example_defs)
  have nm: "device_name ?rq = ''/dev/hda1''" "program_name ?rq = ''resize2fs''" "EXT2_FLAG_RW K0 = 1"
    by (simp_all add: example_defs)
  note T = C8_noop_exit_follows_mount_and_feature_gates
  let ?t = "[Msg_banner, Call_check_if_mounted ''/dev/hda1'',
       Call_ext2fs_open ''/dev/hda1'' 1 Unix_io_manager,
       Call_get_device_size ''/dev/hda1'' 1024]"
  from T [where K = K0 and W = ?Ws and cl = ?cl and t = ?t and rq = ?rq and fs = ?fs and mx = 1000,
      THEN conjunct1] pre cap eq
  have r1: "main K0 ?Ws ?cl =
     ([Msg_banner, Call_check_if_mounted ''/dev/hda1'',
       Call_ext2fs_open ''/dev/hda1'' 1 Unix_io_manager,
       Call_get_device_size ''/dev/hda1'' 1024, Msg_nothing_to_do 500], 0)"
    by (simp add: st example_defs)
  from T [where K = K0 and W = ?Wm and cl = ?cl and ?t1.0 = "[Msg_banner]" and ?rq1.0 = ?rq and mf = 1,
      THEN conjunct2, THEN conjunct1] pm mm mf
  have r2: "main K0 ?Wm ?cl =
     ([Msg_banner, Call_check_if_mounted ''/dev/hda1'', Msg_is_mounted ''/dev/hda1''], 1)"
    by (simp add: nm)
  from T [where K = K0 and W = ?Wu and cl = ?cl and ?t1.0 = "[Msg_banner]" and ?rq1.0 = ?rq
      and ?t2.0 = "[Call_check_if_mounted ''/dev/hda1'']" and ?t3.0 = "[]" and ?fs1.0 = ?fu,
      THEN conjunct2, THEN conjunct2] pu cu fu ou uu
  have r3: "main K0 ?Wu ?cl =
     ([Msg_banner, Call_check_if_mounted ''/dev/hda1'',
       Call_ext2fs_open ''/dev/hda1'' 1 Unix_io_manager,
       Err_unsupp_feature ''resize2fs'' ''/dev/hda1''], 1)"
    by (simp add: sel nm)
  show ?thesis
    using pre cap eq st pm mm mf uu r1 r2 r3 by simp
qed

text \<open>
  Read off the events of a run: a run that contains the no-op message has completed
  every stage before the size comparison and ends with that message.
\<close>

lemma noop_message_follows_gates:
  assumes "Msg_nothing_to_do n \<in> set (fst (main K W cl))"
  shows "\<exists>t rq fs mx.
           main_prefix K W cl = (t, Inr (rq, fs, mx)) \<and>
           main K W cl = (t @ [Msg_nothing_to_do n], 0) \<and>
           n = s_blocks_count (fs_super fs) \<and>
           Call_check_if_mounted (device_name rq) \<in> set t \<and>
           (fst (ext2fs_check_if_mounted W (device_name rq)) \<noteq> 0 \<or>
            snd (ext2fs_check_if_mounted W (device_name rq)) AND EXT2_MF_MOUNTED K = 0) \<and>
           Call_ext2fs_open (device_name rq) (EXT2_FLAG_RW K) (snd (select_io K rq)) \<in> set t \<and>
           ext2fs_open W (device_name rq) (EXT2_FLAG_RW K) (snd (select_io K rq)) = (0, fs) \<and>
           \<not> unsupp_feature K (fs_super fs) \<and>
           Msg_run_e2fsck (device_name rq) \<notin> set (fst (main K W cl))"
proof (cases K W cl rule: main_cases)
  case (c_parse t1)
  with assms parse_cmdline_no_noop [OF c_parse(1), of n] show ?thesis by simp
next
  case (c_mounted rq t2)
  with assms check_mount_no_noop [OF c_mounted(2), of n] show ?thesis by simp
next
  case (c_flush rq t2 t3)
  with assms check_mount_no_noop [OF c_flush(2), of n] flush_stage_no_noop [OF c_flush(3), of n]
  show ?thesis by simp
next
  case (c_open rq t2 t3 t4)
  with assms check_mount_no_noop [OF c_open(2), of n] flush_stage_no_noop [OF c_open(3), of n]
    open_stage_no_noop [OF c_open(4), of n]
  show ?thesis by simp
next
  case (c_resize rq t2 t3 t4 fs mx)
  let ?t = "Msg_banner # t2 @ t3 @ t4"
  have "Msg_nothing_to_do n \<in> set (fst (resize_stage K W rq fs mx))"
    using assms check_mount_no_noop [OF c_resize(2), of n] flush_stage_no_noop [OF c_resize(3), of n]
      open_stage_no_noop [OF c_resize(4), of n]
    by (simp add: c_resize(6))
  from resize_stage_nothing_to_do [OF this]
  have rs: "resize_stage K W rq fs mx = ([Msg_nothing_to_do n], 0)"
    and n: "n = s_blocks_count (fs_super fs)" by simp_all
  have m: "main K W cl = (?t @ [Msg_nothing_to_do n], 0)"
    by (simp add: c_resize(6) rs)
  have ck: "Call_check_if_mounted (device_name rq) \<in> set ?t"
    using check_mount_hd [OF c_resize(2)] by auto
  have mt: "fst (ext2fs_check_if_mounted W (device_name rq)) \<noteq> 0 \<or>
            snd (ext2fs_check_if_mounted W (device_name rq)) AND EXT2_MF_MOUNTED K = 0"
    using check_mount_Inr [OF c_resize(2)] by auto
  note o = open_stage_Inr [OF c_resize(4)]
  have op: "Call_ext2fs_open (device_name rq) (EXT2_FLAG_RW K) (snd (select_io K rq)) \<in> set ?t"
    using o by simp
  have ne: "Msg_run_e2fsck (device_name rq) \<notin> set (fst (main K W cl))"
    using check_mount_Inr [OF c_resize(2)] flush_stage_Inr [OF c_resize(3)] o select_io_cases [of K rq]
    by (auto simp: m)
  show ?thesis
    using c_resize(5) m n ck mt op o ne by blast
qed

section \<open>A requested size of zero\<close>

text \<open>
  C9. A size operand that \<open>strtoul\<close> reads as 0 cannot be told from no size operand:
  the two runs are the same, event for event, with the same exit status. In such a run
  \<open>new_size\<close> is 0 when the size is resolved, the resolved size is the probed capacity
  of the device, and the engine, when it is invoked, is given the capacity.
\<close>

theorem C9_zero_size_is_no_size:
  assumes "strtoul W s = (0, [])"
  shows "main K W (cl\<lparr>operands := [dev, s]\<rparr>) = main K W (cl\<lparr>operands := [dev]\<rparr>) \<and>
         (\<forall>t rq fs mx. main_prefix K W (cl\<lparr>operands := [dev, s]\<rparr>) = (t, Inr (rq, fs, mx)) \<longrightarrow>
            new_size rq = 0 \<and> resolve_size (new_size rq) mx = mx \<and>
            (engine_sizes (fst (main K W (cl\<lparr>operands := [dev, s]\<rparr>))) = [] \<or>
             engine_sizes (fst (main K W (cl\<lparr>operands := [dev, s]\<rparr>))) = [mx]))"
proof -
  let ?c2 = "cl\<lparr>operands := [dev, s]\<rparr>" and ?c1 = "cl\<lparr>operands := [dev]\<rparr>"
  have p: "parse_cmdline K W ?c2 = parse_cmdline K W ?c1"
    using assms by (simp add: parse_cmdline_def mk_request_def split: option.splits)
  have "main_prefix K W ?c2 = main_prefix K W ?c1"
    by (simp add: main_prefix_def p)
  then have eq: "main K W ?c2 = main K W ?c1"
    by (simp add: main_def)
  have "new_size rq = 0 \<and> resolve_size (new_size rq) mx = mx \<and>
        (engine_sizes (fst (main K W ?c2)) = [] \<or> engine_sizes (fst (main K W ?c2)) = [mx])"
    if pre: "main_prefix K W ?c2 = (t, Inr (rq, fs, mx))" for t rq fs mx
  proof -
    from main_prefix_Inr [OF pre] have "parse_cmdline K W ?c2 = ([Msg_banner], Inr rq)" by blast
    then have z: "new_size rq = 0"
      using assms by (auto simp: parse_cmdline_def mk_request_def split: option.splits)
    have r: "resolve_size (new_size rq) mx = mx" by (simp add: z resolve_size_def)
    have "engine_sizes (fst (main K W ?c2)) = [] \<or> engine_sizes (fst (main K W ?c2)) = [mx]"
      using main_prefix_no_engine [OF pre] r
      by (simp add: main_of_prefix [OF pre] resize_stage_def Let_def engine_sizes_append)
    with z r show ?thesis by simp
  qed
  with eq show ?thesis by blast
qed

theorem C9_zero_size_is_no_size_witness:
  "strtoul W0 ''0'' = (0, []) \<and>
   main K0 W0 (cmd [] [''0'']) = main K0 W0 (cmd [] []) \<and>
   main K0 W0 (cmd [] [''0'']) =
     ([Msg_banner, Call_check_if_mounted ''/dev/hda1'',
       Call_ext2fs_open ''/dev/hda1'' 1 Unix_io_manager,
       Call_get_device_size ''/dev/hda1'' 1024,
       Call_resize_fs fs0 1000 0 False,
       Msg_now_long ''/dev/hda1'' 1000], 0)"
proof -
  have h: "strtoul W0 ''0'' = (0, [])" by (simp add: W0_def)
  have c2: "(cmd [] [])\<lparr>operands := [''/dev/hda1'', ''0'']\<rparr> = cmd [] [''0'']" by (simp add: cmd_def)
  have c1: "(cmd [] [])\<lparr>operands := [''/dev/hda1'']\<rparr> = cmd [] []" by (simp add: cmd_def)
  have m: "main K0 W0 (cmd [] []) =
     ([Msg_banner, Call_check_if_mounted ''/dev/hda1'',
       Call_ext2fs_open ''/dev/hda1'' 1 Unix_io_manager,
       Call_get_device_size ''/dev/hda1'' 1024,
       Call_resize_fs fs0 1000 0 False,
       Msg_now_long ''/dev/hda1'' 1000], 0)"
    by (simp add: stage_defs example_defs)
  from C9_zero_size_is_no_size [OF h, where K = K0 and cl = "cmd [] []" and dev = "''/dev/hda1''"]
  have "main K0 W0 (cmd [] [''0'']) = main K0 W0 (cmd [] [])"
    unfolding c1 c2 by blast
  with h m show ?thesis by simp
qed

section \<open>The debug mask and the progress callback\<close>

lemma word_or_and_zero:
  "(a OR b) AND x = 0 \<longleftrightarrow> a AND x = 0 \<and> b AND x = 0" for a b x :: "32 word"
  by (simp add: bit.conj_disj_distrib2 or_eq_0_iff)

lemma getopt_loop_flags:
  "getopt_loop K W opts st = Some st' \<Longrightarrow> o_flags st' = o_flags st OR option_mask K W opts"
proof (induction opts arbitrary: st)
  case Nil
  then show ?case by simp
next
  case (Cons o1 opts)
  obtain c a where o1: "o1 = (c, a)" by (cases o1)
  show ?case
    using Cons.prems Cons.IH
    by (auto simp: o1 or.assoc split: if_splits)
qed

lemma parse_cmdline_flags:
  "parse_cmdline K W cl = (t, Inr rq) \<Longrightarrow> flags rq = option_mask K W (getopt_results cl)"
  by (auto simp: parse_cmdline_def mk_request_def split: option.splits list.splits if_splits
      dest!: getopt_loop_flags)

lemma option_mask_d:
  "(CHR ''d'', a) \<in> set opts \<Longrightarrow> atoi W a AND x \<noteq> 0 \<Longrightarrow> option_mask K W opts AND x \<noteq> 0"
  by (induction opts) (auto simp: word_or_and_zero)

lemma option_mask_p:
  "(CHR ''p'', a) \<in> set opts \<Longrightarrow> RESIZE_PERCENT_COMPLETE K \<noteq> 0 \<Longrightarrow>
   option_mask K W opts AND RESIZE_PERCENT_COMPLETE K \<noteq> 0"
  by (induction opts) (auto simp: word_or_and_zero)

lemma resize_stage_engine_call:
  assumes "Call_resize_fs fs' n fl cb \<in> set (fst (resize_stage K W rq fs mx))"
  shows "fl = flags rq \<and> (cb \<longleftrightarrow> flags rq AND RESIZE_PERCENT_COMPLETE K \<noteq> 0)"
  using assms by (auto simp: resize_stage_def Let_def split: if_splits)

text \<open>
  C10. Whenever the engine is invoked, the flag set it is given is the bitwise or of the
  values of all \<open>-d\<close> options and of the percent-complete flag for each \<open>-p\<close>, and
  it is given the progress callback if and only if that set has a bit of the
  percent-complete flag. So a \<open>-d\<close> value that includes the percent-complete flag
  enables the callback, as \<open>-p\<close> does.
\<close>

theorem C10_debug_mask_enables_progress:
  assumes "Call_resize_fs fs n fl cb \<in> set (fst (main K W cl))"
  shows "fl = option_mask K W (getopt_results cl) \<and>
         (cb \<longleftrightarrow> fl AND RESIZE_PERCENT_COMPLETE K \<noteq> 0) \<and>
         ((\<exists>a. (CHR ''d'', a) \<in> set (getopt_results cl) \<and>
                atoi W a AND RESIZE_PERCENT_COMPLETE K \<noteq> 0) \<longrightarrow> cb) \<and>
         ((\<exists>a. (CHR ''p'', a) \<in> set (getopt_results cl)) \<and> RESIZE_PERCENT_COMPLETE K \<noteq> 0
            \<longrightarrow> cb)"
proof -
  let ?e = "Call_resize_fs fs n fl cb"
  have en: "is_engine ?e" by simp
  have "\<exists>rq fs' mx. parse_cmdline K W cl = ([Msg_banner], Inr rq) \<and>
          ?e \<in> set (fst (resize_stage K W rq fs' mx))"
  proof (cases K W cl rule: main_cases)
    case (c_parse t1)
    with assms en parse_cmdline_kinds [OF c_parse(1), of ?e] show ?thesis by auto
  next
    case (c_mounted rq t2)
    with assms en check_mount_kinds [OF c_mounted(2), of ?e] show ?thesis by auto
  next
    case (c_flush rq t2 t3)
    with assms en check_mount_kinds [OF c_flush(2), of ?e] flush_stage_kinds [OF c_flush(3), of ?e]
    show ?thesis by auto
  next
    case (c_open rq t2 t3 t4)
    with assms en check_mount_kinds [OF c_open(2), of ?e] flush_stage_kinds [OF c_open(3), of ?e]
      open_stage_kinds [OF c_open(4), of ?e]
    show ?thesis by auto
  next
    case (c_resize rq t2 t3 t4 fs' mx)
    have "?e \<in> set (fst (resize_stage K W rq fs' mx))"
      using assms en check_mount_kinds [OF c_resize(2), of ?e] flush_stage_kinds [OF c_resize(3), of ?e]
        open_stage_kinds [OF c_resize(4), of ?e]
      by (auto simp: c_resize(6))
    with c_resize(1) show ?thesis by blast
  qed
  then obtain rq fs' mx where p: "parse_cmdline K W cl = ([Msg_banner], Inr rq)"
    and e: "?e \<in> set (fst (resize_stage K W rq fs' mx))" by blast
  from resize_stage_engine_call [OF e] parse_cmdline_flags [OF p]
  have fl: "fl = option_mask K W (getopt_results cl)"
    and cb: "cb \<longleftrightarrow> fl AND RESIZE_PERCENT_COMPLETE K \<noteq> 0" by simp_all
  show ?thesis
    using fl cb option_mask_d [of _ "getopt_results cl" W "RESIZE_PERCENT_COMPLETE K" K]
      option_mask_p [of _ "getopt_results cl" K W]
    by blast
qed

theorem C10_debug_mask_enables_progress_witness:
  "Call_resize_fs fs0 1000 256 True \<in> set (fst (main K0 W0 (cmd [(CHR ''d'', ''256'')] []))) \<and>
   option_mask K0 W0 (getopt_results (cmd [(CHR ''d'', ''256'')] [])) = 256 \<and>
   (CHR ''d'', ''256'') \<in> set (getopt_results (cmd [(CHR ''d'', ''256'')] [])) \<and>
   atoi W0 ''256'' AND RESIZE_PERCENT_COMPLETE K0 \<noteq> 0"
proof -
  have m: "main K0 W0 (cmd [(CHR ''d'', ''256'')] []) =
     ([Msg_banner, Call_check_if_mounted ''/dev/hda1'',
       Call_ext2fs_open ''/dev/hda1'' 1 Unix_io_manager,
       Call_get_device_size ''/dev/hda1'' 1024,
       Call_resize_fs fs0 1000 256 True,
       Msg_now_long ''/dev/hda1'' 1000], 0)"
    by (simp add: stage_defs example_defs)
  have h: "Call_resize_fs fs0 1000 256 True \<in> set (fst (main K0 W0 (cmd [(CHR ''d'', ''256'')] [])))"
    by (simp add: m)
  have a: "atoi W0 ''256'' AND RESIZE_PERCENT_COMPLETE K0 \<noteq> 0"
    by (simp add: W0_def K0_def)
  show ?thesis
    using C10_debug_mask_enables_progress [OF h] h a by (simp add: cmd_def)
qed

end
